theory Spec2Isabelle
  imports Main "HOL-Library.Log_Nat"
begin

section \<open>JavaScript values\<close>

text \<open>
  The backend \<^verbatim>\<open>src/AHELP/backend/server.js\<close> is untyped: request bodies and stored
  records are whatever \<^verbatim>\<open>JSON.parse\<close> returned. The model therefore works on one type of
  JavaScript values. Numbers are the integer-valued doubles (the points, steps and
  minutes of the application) together with the three non-finite doubles; fractional
  doubles are not represented.
\<close>

datatype number = Finite int | NaN | PosInf | NegInf

datatype jsval =
    JUndefined
  | JNull
  | JBool bool
  | JNum number
  | JStr string
  | JArr "jsval list"
  | JObj "(string \<times> jsval) list"

datatype error = TypeError

text \<open>
  Rounding of an exact integer result to the nearest double, ties to even: a double has
  a 53 bit significand and overflows to an infinity from \<open>2 ^ 1024\<close> on.
\<close>

definition round_double :: "int \<Rightarrow> number" where
  "round_double n =
     (let a = \<bar>n\<bar> in
      if a \<le> 2 ^ 53 then Finite n
      else
        let ulp = 2 ^ nat (bitlen a - 53);
            d = a div ulp;
            r = a mod ulp;
            q = (if 2 * r < ulp \<or> (2 * r = ulp \<and> even d) then d else d + 1);
            m = q * ulp
        in if 2 ^ 1024 \<le> m then (if n < 0 then NegInf else PosInf)
           else Finite (sgn n * m))"

text \<open>The operator \<^verbatim>\<open>+\<close> on two numbers.\<close>

fun number_add :: "number \<Rightarrow> number \<Rightarrow> number" where
  "number_add (Finite a) (Finite b) = round_double (a + b)"
| "number_add NaN _ = NaN"
| "number_add _ NaN = NaN"
| "number_add PosInf NegInf = NaN"
| "number_add NegInf PosInf = NaN"
| "number_add PosInf _ = PosInf"
| "number_add _ PosInf = PosInf"
| "number_add NegInf _ = NegInf"
| "number_add _ NegInf = NegInf"

text \<open>Truthiness, as tested by \<^verbatim>\<open>!x\<close> and \<^verbatim>\<open>x || y\<close>.\<close>

fun truthy :: "jsval \<Rightarrow> bool" where
  "truthy JUndefined = False"
| "truthy JNull = False"
| "truthy (JBool b) = b"
| "truthy (JNum n) = (n \<noteq> Finite 0 \<and> n \<noteq> NaN)"
| "truthy (JStr s) = (s \<noteq> [])"
| "truthy (JArr _) = True"
| "truthy (JObj _) = True"

definition js_or :: "jsval \<Rightarrow> jsval \<Rightarrow> jsval" where
  "js_or a b = (if truthy a then a else b)"

text \<open>\<^verbatim>\<open>x == null\<close> holds of \<^verbatim>\<open>null\<close> and \<^verbatim>\<open>undefined\<close> only.\<close>

fun nullish :: "jsval \<Rightarrow> bool" where
  "nullish JUndefined = True"
| "nullish JNull = True"
| "nullish _ = False"

text \<open>\<^verbatim>\<open>typeof x === 'number'\<close>.\<close>

fun typeof_number :: "jsval \<Rightarrow> bool" where
  "typeof_number (JNum _) = True"
| "typeof_number _ = False"

text \<open>
  Strict equality \<^verbatim>\<open>===\<close>. Primitives are compared by value, and \<^verbatim>\<open>NaN\<close> differs from
  itself. Arrays and objects are compared by reference; every comparison in the
  handlers has one operand from the parsed file and the other from the request or from
  a fresh digest, so two arrays or objects are never the same reference.
\<close>

fun strict_eq :: "jsval \<Rightarrow> jsval \<Rightarrow> bool" where
  "strict_eq JUndefined JUndefined = True"
| "strict_eq JNull JNull = True"
| "strict_eq (JBool a) (JBool b) = (a = b)"
| "strict_eq (JNum a) (JNum b) = (a = b \<and> a \<noteq> NaN)"
| "strict_eq (JStr a) (JStr b) = (a = b)"
| "strict_eq _ _ = False"

text \<open>
  Reading a property \<^verbatim>\<open>x.k\<close> of a value that is neither \<^verbatim>\<open>null\<close> nor \<^verbatim>\<open>undefined\<close>
  (on those the read throws, which each caller checks with \<open>nullish\<close> first). The
  handlers read only names that no string, number, boolean or array has of its own or
  inherits, so on those the read gives \<^verbatim>\<open>undefined\<close>.
\<close>

fun get_prop :: "jsval \<Rightarrow> string \<Rightarrow> jsval" where
  "get_prop (JObj ps) k = (case map_of ps k of None \<Rightarrow> JUndefined | Some v \<Rightarrow> v)"
| "get_prop _ k = JUndefined"

text \<open>
  The assignment \<^verbatim>\<open>x.k = v\<close>: an existing property keeps its place, a new one goes
  last. On a primitive the assignment has no effect (the file is not in strict mode).
\<close>

fun assign :: "string \<Rightarrow> jsval \<Rightarrow> (string \<times> jsval) list \<Rightarrow> (string \<times> jsval) list" where
  "assign k v [] = [(k, v)]"
| "assign k v ((k', v') # ps) = (if k' = k then (k, v) # ps else (k', v') # assign k v ps)"

fun set_prop :: "jsval \<Rightarrow> string \<Rightarrow> jsval \<Rightarrow> jsval" where
  "set_prop (JObj ps) k v = JObj (assign k v ps)"
| "set_prop x k v = x"

text \<open>
  The rest pattern \<^verbatim>\<open>const { passwordHash, salt, ...safeUser } = user\<close>: the own
  properties of the object except the named ones, in their order. A number or a boolean
  has no own properties; the handlers reach the pattern with an object only (lemmas
  \<open>post_login_cases\<close> and \<open>get_user_cases\<close>), so strings and arrays, whose indices
  are own properties, need no equation of their own.
\<close>

fun rest_without :: "string list \<Rightarrow> jsval \<Rightarrow> jsval" where
  "rest_without ks (JObj ps) = JObj (filter (\<lambda>(k, v). k \<notin> set ks) ps)"
| "rest_without ks x = JObj []"

text \<open>
  What \<^verbatim>\<open>JSON.parse(JSON.stringify(x))\<close> gives: a non-finite number becomes \<^verbatim>\<open>null\<close>, an
  \<^verbatim>\<open>undefined\<close> array element becomes \<^verbatim>\<open>null\<close>, and a property whose value is
  \<^verbatim>\<open>undefined\<close> is left out.
\<close>

fun toJSON :: "jsval \<Rightarrow> jsval" where
  "toJSON (JNum (Finite i)) = JNum (Finite i)"
| "toJSON (JNum _) = JNull"
| "toJSON (JArr xs) = JArr (map (\<lambda>x. if x = JUndefined then JNull else toJSON x) xs)"
| "toJSON (JObj ps) =
     JObj (map (\<lambda>(k, v). (k, toJSON v)) (filter (\<lambda>(k, v). v \<noteq> JUndefined) ps))"
| "toJSON x = x"

text \<open>
  The operator \<^verbatim>\<open>+\<close>. Operands that are \<^verbatim>\<open>undefined\<close>, \<^verbatim>\<open>null\<close>, booleans or numbers
  are converted to numbers and added; as soon as one operand is a string, an array or an
  object, both are converted to strings and concatenated. The conversion of a value to a
  string is the runtime's and is taken as the parameter \<open>to_string\<close> (a string converts
  to itself).
\<close>

fun to_number :: "jsval \<Rightarrow> number option" where
  "to_number JUndefined = Some NaN"
| "to_number JNull = Some (Finite 0)"
| "to_number (JBool b) = Some (Finite (if b then 1 else 0))"
| "to_number (JNum n) = Some n"
| "to_number _ = None"

definition js_plus :: "(jsval \<Rightarrow> string) \<Rightarrow> jsval \<Rightarrow> jsval \<Rightarrow> jsval" where
  "js_plus to_string a b =
     (case (to_number a, to_number b) of
        (Some x, Some y) \<Rightarrow> JNum (number_add x y)
      | _ \<Rightarrow> JStr ((case a of JStr s \<Rightarrow> s | _ \<Rightarrow> to_string a) @
                 (case b of JStr s \<Rightarrow> s | _ \<Rightarrow> to_string b)))"

text \<open>
  \<^verbatim>\<open>Array.prototype.find\<close> with a callback that may throw: the first element the callback
  accepts, with its index (the index stands for the reference into the array that the
  handler later assigns through), or nothing.
\<close>

fun array_find :: "(jsval \<Rightarrow> error + bool) \<Rightarrow> jsval list \<Rightarrow> error + (nat \<times> jsval) option" where
  "array_find p [] = Inr None"
| "array_find p (x # xs) =
     (case p x of
        Inl e \<Rightarrow> Inl e
      | Inr True \<Rightarrow> Inr (Some (0, x))
      | Inr False \<Rightarrow>
          (case array_find p xs of
             Inl e \<Rightarrow> Inl e
           | Inr None \<Rightarrow> Inr None
           | Inr (Some (i, y)) \<Rightarrow> Inr (Some (Suc i, y))))"

text \<open>\<^verbatim>\<open>Array.prototype.filter\<close> with a callback that may throw.\<close>

fun array_filter :: "(jsval \<Rightarrow> error + bool) \<Rightarrow> jsval list \<Rightarrow> error + jsval list" where
  "array_filter p [] = Inr []"
| "array_filter p (x # xs) =
     (case p x of
        Inl e \<Rightarrow> Inl e
      | Inr b \<Rightarrow>
          (case array_filter p xs of
             Inl e \<Rightarrow> Inl e
           | Inr ys \<Rightarrow> Inr (if b then x # ys else ys)))"

text \<open>
  The callback \<^verbatim>\<open>(u) => u.username === username\<close>, used by every lookup; reading the
  property of a \<^verbatim>\<open>null\<close> element throws.
\<close>

definition username_is :: "jsval \<Rightarrow> jsval \<Rightarrow> error + bool" where
  "username_is username u =
     (if nullish u then Inl TypeError else Inr (strict_eq (get_prop u ''username'') username))"

text \<open>
  \<^verbatim>\<open>users.find(...)\<close>, \<^verbatim>\<open>.filter(...)\<close> and \<^verbatim>\<open>.push(...)\<close> on what \<^verbatim>\<open>readJson\<close> returned: a
  parsed document that is not an array has no such method and the call throws.
\<close>

definition js_find :: "jsval \<Rightarrow> jsval \<Rightarrow> error + (nat \<times> jsval) option" where
  "js_find users username =
     (case users of JArr us \<Rightarrow> array_find (username_is username) us | _ \<Rightarrow> Inl TypeError)"

definition js_filter :: "jsval \<Rightarrow> jsval \<Rightarrow> error + jsval" where
  "js_filter entries username =
     (case entries of
        JArr es \<Rightarrow>
          (case array_filter (username_is username) es of
             Inl e \<Rightarrow> Inl e
           | Inr ys \<Rightarrow> Inr (JArr ys))
      | _ \<Rightarrow> Inl TypeError)"

definition js_push :: "jsval \<Rightarrow> jsval \<Rightarrow> error + jsval" where
  "js_push xs x = (case xs of JArr ys \<Rightarrow> Inr (JArr (ys @ [x])) | _ \<Rightarrow> Inl TypeError)"

text \<open>
  \<^verbatim>\<open>crypto.createHmac('sha256', key).update(data).digest('hex')\<close>. The digest function is
  the library's and is taken as the parameter \<open>hmac\<close>; key and data must be strings
  (the other types it accepts are not JSON values), otherwise the call throws.
\<close>

definition hmac_hex :: "(string \<Rightarrow> string \<Rightarrow> string) \<Rightarrow> jsval \<Rightarrow> jsval \<Rightarrow> error + string" where
  "hmac_hex hmac key data =
     (case key of
        JStr k \<Rightarrow> (case data of JStr d \<Rightarrow> Inr (hmac k d) | _ \<Rightarrow> Inl TypeError)
      | _ \<Rightarrow> Inl TypeError)"

section \<open>The record store\<close>

text \<open>
  A file of the data directory, as \<^verbatim>\<open>readJson\<close> can find it: absent, present but not
  readable, empty, holding text that \<^verbatim>\<open>JSON.parse\<close> rejects, or holding a JSON document
  (identified with the value it parses to). \<open>read_only\<close> tells for which paths
  \<^verbatim>\<open>fs.writeFileSync\<close> throws, and \<open>stderr\<close> is what \<^verbatim>\<open>console.error\<close> has printed.
\<close>

datatype file_state = Absent | Unreadable | Blank | Malformed | Document jsval

datatype log_entry = ErrorReading string | ErrorWriting string

record world =
  files :: "string \<Rightarrow> file_state"
  read_only :: "string \<Rightarrow> bool"
  stderr :: "log_entry list"

definition usersFile :: string where
  "usersFile = ''data/users.json''"

definition communityFile :: string where
  "communityFile = ''data/community.json''"

definition progressFile :: string where
  "progressFile = ''data/progress.json''"

definition readJson :: "string \<Rightarrow> world \<Rightarrow> jsval \<times> world" where
  "readJson path w =
     (case files w path of
        Absent \<Rightarrow> (JArr [], w)
      | Unreadable \<Rightarrow> (JArr [], w\<lparr>stderr := stderr w @ [ErrorReading path]\<rparr>)
      | Blank \<Rightarrow> (JArr [], w)
      | Malformed \<Rightarrow> (JArr [], w\<lparr>stderr := stderr w @ [ErrorReading path]\<rparr>)
      | Document v \<Rightarrow> (v, w))"

definition writeJson :: "string \<Rightarrow> jsval \<Rightarrow> world \<Rightarrow> world" where
  "writeJson path data w =
     (if read_only w path then w\<lparr>stderr := stderr w @ [ErrorWriting path]\<rparr>
      else w\<lparr>files := (files w)(path := Document (toJSON data))\<rparr>)"

section \<open>Requests and responses\<close>

text \<open>
  A response is a status with the JSON body that \<^verbatim>\<open>res.json\<close> serialises; an exception
  that leaves a handler is \<open>Uncaught\<close> (the framework answers it with status 500).
\<close>

datatype response = Response nat jsval | Uncaught

definition res_json :: "nat \<Rightarrow> jsval \<Rightarrow> response" where
  "res_json status body = Response status (toJSON body)"

definition error_body :: "string \<Rightarrow> jsval" where
  "error_body msg = JObj [(''error'', JStr msg)]"

definition message_body :: "string \<Rightarrow> jsval" where
  "message_body msg = JObj [(''message'', JStr msg)]"

text \<open>What \<^verbatim>\<open>find\<close> returns to the handler: the element, or \<^verbatim>\<open>undefined\<close>.\<close>

fun found_value :: "(nat \<times> jsval) option \<Rightarrow> jsval" where
  "found_value None = JUndefined"
| "found_value (Some (i, u)) = u"

section \<open>User endpoints\<close>

text \<open>
  The record that \<^verbatim>\<open>POST /api/register\<close> builds. \<open>salt\<close> is the hex string of the 16
  bytes that \<^verbatim>\<open>crypto.randomBytes\<close> returned.
\<close>

definition newUser :: "jsval \<Rightarrow> string \<Rightarrow> string \<Rightarrow> jsval" where
  "newUser body hash salt =
     JObj [(''username'', get_prop body ''username''),
           (''passwordHash'', JStr hash),
           (''salt'', JStr salt),
           (''name'', js_or (get_prop body ''name'') (JStr [])),
           (''agency'', js_or (get_prop body ''agency'') (JStr [])),
           (''age'', js_or (get_prop body ''age'') (JStr [])),
           (''gender'', js_or (get_prop body ''gender'') (JStr [])),
           (''height'', js_or (get_prop body ''height'') (JStr [])),
           (''weight'', js_or (get_prop body ''weight'') (JStr [])),
           (''exercise'', js_or (get_prop body ''exercise'') (JStr [])),
           (''fruitsVeg'', js_or (get_prop body ''fruitsVeg'') (JStr [])),
           (''water'', js_or (get_prop body ''water'') (JStr [])),
           (''tobacco'', js_or (get_prop body ''tobacco'') (JStr [])),
           (''points'', JNum (Finite 0))]"

text \<open>\<^verbatim>\<open>app.post('/api/register', ...)\<close>; destructuring a missing body throws.\<close>

definition post_register ::
  "(string \<Rightarrow> string \<Rightarrow> string) \<Rightarrow> string \<Rightarrow> jsval \<Rightarrow> world \<Rightarrow> response \<times> world" where
  "post_register hmac salt body w =
     (if nullish body then (Uncaught, w)
      else
        let username = get_prop body ''username'';
            password = get_prop body ''password''
        in
          if \<not> truthy username \<or> \<not> truthy password then
            (res_json 400 (error_body ''Username and password are required.''), w)
          else
            let (users, w1) = readJson usersFile w in
              (case js_find users username of
                 Inl e \<Rightarrow> (Uncaught, w1)
               | Inr found \<Rightarrow>
                   if truthy (found_value found) then
                     (res_json 400 (error_body ''Username already exists.''), w1)
                   else
                     (case hmac_hex hmac (JStr salt) password of
                        Inl e \<Rightarrow> (Uncaught, w1)
                      | Inr hash \<Rightarrow>
                          (case js_push users (newUser body hash salt) of
                             Inl e \<Rightarrow> (Uncaught, w1)
                           | Inr users' \<Rightarrow>
                               (res_json 200 (message_body ''User registered successfully.''),
                                writeJson usersFile users' w1)))))"

text \<open>\<^verbatim>\<open>app.post('/api/login', ...)\<close>.\<close>

definition post_login ::
  "(string \<Rightarrow> string \<Rightarrow> string) \<Rightarrow> jsval \<Rightarrow> world \<Rightarrow> response \<times> world" where
  "post_login hmac body w =
     (if nullish body then (Uncaught, w)
      else
        let username = get_prop body ''username'';
            password = get_prop body ''password'';
            (users, w1) = readJson usersFile w
        in
          (case js_find users username of
             Inl e \<Rightarrow> (Uncaught, w1)
           | Inr found \<Rightarrow>
               let user = found_value found in
                 if \<not> truthy user then (res_json 400 (error_body ''Invalid credentials.''), w1)
                 else
                   (case hmac_hex hmac (get_prop user ''salt'') password of
                      Inl e \<Rightarrow> (Uncaught, w1)
                    | Inr hash \<Rightarrow>
                        if \<not> strict_eq (JStr hash) (get_prop user ''passwordHash'') then
                          (res_json 400 (error_body ''Invalid credentials.''), w1)
                        else
                          (res_json 200 (rest_without [''passwordHash'', ''salt''] user), w1))))"

text \<open>\<^verbatim>\<open>app.get('/api/user/:username', ...)\<close>; the route parameter is a string.\<close>

definition get_user :: "string \<Rightarrow> world \<Rightarrow> response \<times> world" where
  "get_user username w =
     (let (users, w1) = readJson usersFile w in
        (case js_find users (JStr username) of
           Inl e \<Rightarrow> (Uncaught, w1)
         | Inr found \<Rightarrow>
             let user = found_value found in
               if \<not> truthy user then (res_json 404 (error_body ''User not found.''), w1)
               else (res_json 200 (rest_without [''passwordHash'', ''salt''] user), w1)))"

text \<open>
  \<^verbatim>\<open>app.post('/api/user/:username/points', ...)\<close>. The assignment to \<^verbatim>\<open>user.points\<close> goes
  through the reference that \<^verbatim>\<open>find\<close> returned, so it changes the element of \<^verbatim>\<open>users\<close>
  at the index found, and that array is written back.
\<close>

text \<open>
  The message of the validation error, in which the word \<^verbatim>\<open>points\<close> stands in double
  quotes (character \<open>0x22\<close>).
\<close>

definition points_error :: string where
  "points_error = ''The '' @ [CHR 0x22] @ ''points'' @ [CHR 0x22] @ '' field must be a number.''"

definition post_points ::
  "(jsval \<Rightarrow> string) \<Rightarrow> string \<Rightarrow> jsval \<Rightarrow> world \<Rightarrow> response \<times> world" where
  "post_points to_string username body w =
     (if nullish body then (Uncaught, w)
      else
        let points = get_prop body ''points'' in
          if \<not> typeof_number points then
            (res_json 400 (error_body points_error), w)
          else
            let (users, w1) = readJson usersFile w in
              (case js_find users (JStr username) of
                 Inl e \<Rightarrow> (Uncaught, w1)
               | Inr None \<Rightarrow> (res_json 404 (error_body ''User not found.''), w1)
               | Inr (Some (i, user)) \<Rightarrow>
                   if \<not> truthy user then (res_json 404 (error_body ''User not found.''), w1)
                   else
                     let user' = set_prop user ''points''
                           (js_plus to_string
                              (js_or (get_prop user ''points'') (JNum (Finite 0))) points);
                         users' = (case users of JArr us \<Rightarrow> JArr (us[i := user']) | _ \<Rightarrow> users)
                     in (res_json 200 (JObj [(''points'', get_prop user' ''points'')]),
                         writeJson usersFile users' w1)))"

section \<open>Progress endpoints\<close>

text \<open>
  \<^verbatim>\<open>app.post('/api/user/:username/progress', ...)\<close>; \<open>now\<close> is the string that
  \<^verbatim>\<open>new Date().toISOString()\<close> returned.
\<close>

definition post_progress :: "string \<Rightarrow> string \<Rightarrow> jsval \<Rightarrow> world \<Rightarrow> response \<times> world" where
  "post_progress now username body w =
     (if nullish body then (Uncaught, w)
      else
        let steps = get_prop body ''steps'';
            minutes = get_prop body ''minutes''
        in
          if nullish steps \<and> nullish minutes then
            (res_json 400 (error_body ''Please provide steps or minutes.''), w)
          else
            let (progress, w1) = readJson progressFile w in
              (case js_push progress
                      (JObj [(''username'', JStr username),
                             (''steps'', js_or steps JNull),
                             (''minutes'', js_or minutes JNull),
                             (''timestamp'', JStr now)]) of
                 Inl e \<Rightarrow> (Uncaught, w1)
               | Inr progress' \<Rightarrow>
                   (res_json 200 (message_body ''Progress logged successfully.''),
                    writeJson progressFile progress' w1)))"

text \<open>\<^verbatim>\<open>app.get('/api/user/:username/progress', ...)\<close>.\<close>

definition get_progress :: "string \<Rightarrow> world \<Rightarrow> response \<times> world" where
  "get_progress username w =
     (let (entries, w1) = readJson progressFile w in
        (case js_filter entries (JStr username) of
           Inl e \<Rightarrow> (Uncaught, w1)
         | Inr progress \<Rightarrow> (res_json 200 progress, w1)))"

section \<open>Community endpoints\<close>

text \<open>\<^verbatim>\<open>app.get('/api/community', ...)\<close>.\<close>

definition get_community :: "world \<Rightarrow> response \<times> world" where
  "get_community w = (let (posts, w1) = readJson communityFile w in (res_json 200 posts, w1))"

text \<open>\<^verbatim>\<open>app.post('/api/community', ...)\<close>.\<close>

definition post_community :: "string \<Rightarrow> jsval \<Rightarrow> world \<Rightarrow> response \<times> world" where
  "post_community now body w =
     (if nullish body then (Uncaught, w)
      else
        let username = get_prop body ''username'';
            description = get_prop body ''description''
        in
          if \<not> truthy username \<or> \<not> truthy description then
            (res_json 400 (error_body ''Post must include a username and description.''), w)
          else
            let (posts, w1) = readJson communityFile w in
              (case js_push posts
                      (JObj [(''username'', username),
                             (''title'', js_or (get_prop body ''title'') (JStr [])),
                             (''description'', description),
                             (''image'', js_or (get_prop body ''image'') (JStr [])),
                             (''duration'', js_or (get_prop body ''duration'') (JStr [])),
                             (''activityType'', js_or (get_prop body ''activityType'') (JStr [])),
                             (''timestamp'', JStr now)]) of
                 Inl e \<Rightarrow> (Uncaught, w1)
               | Inr posts' \<Rightarrow>
                   (res_json 200 (message_body ''Post created successfully.''),
                    writeJson communityFile posts' w1)))"

section \<open>Stored user records\<close>

text \<open>
  The user records as the handlers see them: the elements of the array in the users
  file, and no record when the file is absent, unreadable or not an array.
\<close>

definition stored_users :: "world \<Rightarrow> jsval list" where
  "stored_users w = (case files w usersFile of Document (JArr us) \<Rightarrow> us | _ \<Rightarrow> [])"

definition username_of :: "jsval \<Rightarrow> jsval" where
  "username_of u = get_prop u ''username''"

fun is_string :: "jsval \<Rightarrow> bool" where
  "is_string (JStr s) = True"
| "is_string _ = False"

text \<open>Every stored record carries a string as its username (the data model of the store).\<close>

definition string_usernames :: "jsval list \<Rightarrow> bool" where
  "string_usernames us = list_all (\<lambda>u. is_string (username_of u)) us"

text \<open>The invariant of the user store: the usernames are strings and pairwise distinct.\<close>

definition unique_usernames :: "world \<Rightarrow> bool" where
  "unique_usernames w =
     (string_usernames (stored_users w) \<and> distinct (map username_of (stored_users w)))"

text \<open>What serialisation makes of an array element.\<close>

definition json_elem :: "jsval \<Rightarrow> jsval" where
  "json_elem x = (if x = JUndefined then JNull else toJSON x)"

text \<open>A data directory without files, on a writable disk.\<close>

definition empty_world :: world where
  "empty_world = \<lparr>files = (\<lambda>p. Absent), read_only = (\<lambda>p. False), stderr = []\<rparr>"

text \<open>A progress log with three entries, two of them of the same user.\<close>

definition progress_world :: world where
  "progress_world = empty_world\<lparr>files := (files empty_world)(progressFile := Document (JArr
     [JObj [(''username'', JStr ''bob''), (''steps'', JNum (Finite 500)), (''minutes'', JNull),
            (''timestamp'', JStr ''2024-01-01T00:00:00.000Z'')],
      JObj [(''username'', JStr ''amy''), (''steps'', JNull), (''minutes'', JNum (Finite 30)),
            (''timestamp'', JStr ''2024-01-02T00:00:00.000Z'')],
      JObj [(''username'', JStr ''bob''), (''steps'', JNum (Finite 20)), (''minutes'', JNull),
            (''timestamp'', JStr ''2024-01-03T00:00:00.000Z'')]]))\<rparr>"

text \<open>Whether an object has an own property of the given name.\<close>

fun has_key :: "jsval \<Rightarrow> string \<Rightarrow> bool" where
  "has_key (JObj ps) k = (k \<in> fst ` set ps)"
| "has_key _ k = False"

text \<open>A users file holding one record, as registration writes it.\<close>

definition alice_record :: jsval where
  "alice_record =
     JObj [(''username'', JStr ''alice''), (''passwordHash'', JStr ''5f2b''),
           (''salt'', JStr ''00ff''), (''name'', JStr ''Alice''), (''agency'', JStr []),
           (''age'', JStr []), (''gender'', JStr []), (''height'', JStr []),
           (''weight'', JStr []), (''exercise'', JStr []), (''fruitsVeg'', JStr []),
           (''water'', JStr []), (''tobacco'', JStr []), (''points'', JNum (Finite 0))]"

definition alice_world :: world where
  "alice_world =
     empty_world\<lparr>files := (files empty_world)(usersFile := Document (JArr [alice_record]))\<rparr>"

text \<open>A stand-in digest for examples: the only digest of key 00ff and message pw123 is 5f2b.\<close>

definition toy_hmac :: "string \<Rightarrow> string \<Rightarrow> string" where
  "toy_hmac k d = (if k = ''00ff'' \<and> d = ''pw123'' then ''5f2b'' else ''0000'')"

section \<open>Basic facts\<close>

lemma res_json_error [simp]: "res_json st (error_body m) = Response st (error_body m)"
  by (simp add: res_json_def error_body_def)

lemma res_json_message [simp]: "res_json st (message_body m) = Response st (message_body m)"
  by (simp add: res_json_def message_body_def)

lemma strict_eq_JStr [simp]: "strict_eq x (JStr n) \<longleftrightarrow> x = JStr n"
  by (cases x) auto

lemma paths_distinct [simp]:
  "usersFile \<noteq> progressFile" "progressFile \<noteq> usersFile"
  "usersFile \<noteq> communityFile" "communityFile \<noteq> usersFile"
  "progressFile \<noteq> communityFile" "communityFile \<noteq> progressFile"
  by (simp_all add: usersFile_def progressFile_def communityFile_def)

lemma readJson_files [simp]: "files (snd (readJson p w)) = files w"
  by (simp add: readJson_def split: file_state.splits)

lemma readJson_read_only [simp]: "read_only (snd (readJson p w)) = read_only w"
  by (simp add: readJson_def split: file_state.splits)

lemma files_writeJson:
  "files (writeJson p d w) =
     (if read_only w p then files w else (files w)(p := Document (toJSON d)))"
  by (simp add: writeJson_def)

lemma readJson_other_file:
  "p \<noteq> q \<Longrightarrow> fst (readJson p (w\<lparr>files := (files w)(q := f)\<rparr>)) = fst (readJson p w)"
  by (simp add: readJson_def split: file_state.splits)

lemma toJSON_JArr: "toJSON (JArr xs) = JArr (map json_elem xs)"
  by (simp add: json_elem_def)

subsection \<open>The progress log\<close>

lemma array_filter_total:
  "\<forall>e\<in>set es. \<not> nullish e \<Longrightarrow>
   array_filter (username_is (JStr n)) es =
     Inr (filter (\<lambda>p. get_prop p ''username'' = JStr n) es)"
  by (induction es) (simp_all add: username_is_def)

lemma post_progress_400_iff:
  assumes "\<not> nullish body"
  shows "fst (post_progress now name body w) =
           Response 400 (error_body ''Please provide steps or minutes.'')
     \<longleftrightarrow> nullish (get_prop body ''steps'') \<and> nullish (get_prop body ''minutes'')"
  using assms
  by (auto simp: post_progress_def Let_def res_json_def message_body_def error_body_def
      split: prod.splits sum.splits)

lemma post_progress_rejected:
  assumes "\<not> nullish body"
    and "nullish (get_prop body ''steps'')" and "nullish (get_prop body ''minutes'')"
  shows "snd (post_progress now name body w) = w"
  using assms by (simp add: post_progress_def Let_def)

lemma post_progress_appends:
  assumes "\<not> nullish body"
    and "\<not> (nullish (get_prop body ''steps'') \<and> nullish (get_prop body ''minutes''))"
    and "fst (readJson progressFile w) = JArr es"
  shows "fst (post_progress now name body w) =
           Response 200 (message_body ''Progress logged successfully.'')"
    and "\<not> read_only w progressFile \<Longrightarrow>
         files (snd (post_progress now name body w)) progressFile =
           Document (toJSON (JArr (es @
             [JObj [(''username'', JStr name),
                    (''steps'', js_or (get_prop body ''steps'') JNull),
                    (''minutes'', js_or (get_prop body ''minutes'') JNull),
                    (''timestamp'', JStr now)]])))"
  using assms
  by (auto simp add: post_progress_def Let_def js_push_def files_writeJson case_prod_beta
      simp del: toJSON.simps)

lemma get_progress_filter:
  assumes "fst (readJson progressFile w) = JArr es" and "\<forall>e\<in>set es. \<not> nullish e"
  shows "fst (get_progress name w) =
     Response 200 (toJSON (JArr (filter (\<lambda>p. get_prop p ''username'' = JStr name) es)))"
  using assms
  by (auto simp: get_progress_def js_filter_def array_filter_total res_json_def
      split: prod.splits)

lemma post_progress_ignores_users:
  "fst (post_progress now name body (w\<lparr>files := (files w)(usersFile := f)\<rparr>)) =
   fst (post_progress now name body w)"
  by (simp add: post_progress_def Let_def readJson_other_file case_prod_beta split: sum.splits)

lemma progress_example:
  assumes "files w progressFile = Absent" and "\<not> read_only w progressFile"
  shows "fst (get_progress ''bob''
            (snd (post_progress now ''bob'' (JObj [(''steps'', JNum (Finite 500))]) w))) =
         Response 200 (JArr [JObj [(''username'', JStr ''bob''), (''steps'', JNum (Finite 500)),
                                   (''minutes'', JNull), (''timestamp'', JStr now)]])"
  using assms
  by (simp add: post_progress_def get_progress_def readJson_def writeJson_def js_push_def
      js_or_def js_filter_def username_is_def res_json_def)

subsection \<open>Serialisation keeps string properties\<close>

lemma is_string_iff: "is_string v \<longleftrightarrow> (\<exists>s. v = JStr s)"
  by (cases v) simp_all

lemma get_prop_string_obj: "get_prop u k = JStr s \<Longrightarrow> \<exists>ps. u = JObj ps"
  by (cases u) simp_all

lemma map_of_toJSON:
  "map_of ps k = Some v \<Longrightarrow> v \<noteq> JUndefined \<Longrightarrow>
   map_of (map (\<lambda>(k, v). (k, toJSON v)) (filter (\<lambda>(k, v). v \<noteq> JUndefined) ps)) k
     = Some (toJSON v)"
  by (induction ps) (auto split: if_splits)

lemma get_prop_toJSON:
  assumes "get_prop u k = v" and "v \<noteq> JUndefined"
  shows "get_prop (toJSON u) k = toJSON v"
proof -
  from assms obtain ps where u: "u = JObj ps" by (cases u) auto
  with assms have "map_of ps k = Some v" by (simp split: option.splits)
  from map_of_toJSON [OF this assms(2)] show ?thesis using u by simp
qed

lemma get_prop_toJSON_string:
  "get_prop u k = JStr s \<Longrightarrow> get_prop (toJSON u) k = JStr s"
  using get_prop_toJSON [of u k "JStr s"] by simp

lemma username_of_json_elem:
  "is_string (username_of u) \<Longrightarrow> username_of (json_elem u) = username_of u"
  unfolding username_of_def json_elem_def is_string_iff
  by (auto simp: get_prop_toJSON_string)

lemma usernames_json_elem:
  "string_usernames us \<Longrightarrow> map username_of (map json_elem us) = map username_of us"
  unfolding string_usernames_def
  by (induction us) (simp_all add: username_of_json_elem)

lemma string_usernames_json_elem:
  "string_usernames us \<Longrightarrow> string_usernames (map json_elem us)"
  unfolding string_usernames_def
  by (induction us) (simp_all add: username_of_json_elem)

subsection \<open>Looking a username up\<close>

lemma username_is_string:
  "is_string (username_of u) \<Longrightarrow> username_is (JStr n) u = Inr (username_of u = JStr n)"
  unfolding username_is_def username_of_def is_string_iff
  by (cases u) (auto split: option.splits)

lemma username_is_True:
  "username_is (JStr n) u = Inr True \<Longrightarrow> username_of u = JStr n"
  by (auto simp: username_is_def username_of_def split: if_splits)

lemma array_find_absent:
  "string_usernames us \<Longrightarrow> JStr n \<notin> set (map username_of us) \<Longrightarrow>
   array_find (username_is (JStr n)) us = Inr None"
  unfolding string_usernames_def
  by (induction us) (auto simp: username_is_string)

lemma array_find_first:
  "string_usernames us \<Longrightarrow> i < length us \<Longrightarrow> username_of (us ! i) = JStr n \<Longrightarrow>
   \<forall>j<i. username_of (us ! j) \<noteq> JStr n \<Longrightarrow>
   array_find (username_is (JStr n)) us = Inr (Some (i, us ! i))"
  unfolding string_usernames_def
proof (induction us arbitrary: i)
  case Nil
  then show ?case by simp
next
  case (Cons u us)
  show ?case
  proof (cases i)
    case 0
    with Cons.prems show ?thesis by (simp add: username_is_string)
  next
    case (Suc k)
    with Cons.prems have "username_of u \<noteq> JStr n" by auto
    moreover from Suc Cons.prems have "\<forall>j<k. username_of (us ! j) \<noteq> JStr n" by auto
    ultimately show ?thesis
      using Suc Cons.prems Cons.IH [of k] by (simp add: username_is_string)
  qed
qed

lemma array_find_Some:
  "array_find p us = Inr (Some (i, u)) \<Longrightarrow>
   i < length us \<and> us ! i = u \<and> p u = Inr True \<and> (\<forall>j<i. p (us ! j) = Inr False)"
proof (induction us arbitrary: i)
  case Nil
  then show ?case by simp
next
  case (Cons x xs)
  show ?case
  proof (cases "p x")
    case (Inl e)
    with Cons.prems show ?thesis by simp
  next
    case (Inr b)
    show ?thesis
    proof (cases b)
      case True
      with Inr Cons.prems show ?thesis by simp
    next
      case False
      with Inr Cons.prems obtain k where k: "i = Suc k" "array_find p xs = Inr (Some (k, u))"
        by (auto split: sum.splits option.splits)
      from Cons.IH [OF k(2)] k(1) Inr False show ?thesis
        by (auto simp: less_Suc_eq_0_disj)
    qed
  qed
qed

lemma array_find_None:
  "array_find p us = Inr None \<Longrightarrow> \<forall>u\<in>set us. p u = Inr False"
  by (induction us) (auto split: sum.splits bool.splits option.splits)

lemma array_find_append_None:
  "array_find p xs = Inr None \<Longrightarrow> p y = Inr True \<Longrightarrow>
   array_find p (xs @ [y]) = Inr (Some (length xs, y))"
  by (induction xs) (auto split: sum.splits bool.splits option.splits)

lemma found_string_user:
  assumes "array_find (username_is (JStr n)) us = Inr (Some (i, u))"
  shows "i < length us" and "us ! i = u" and "username_of u = JStr n"
    and "\<exists>ps. u = JObj ps" and "truthy u"
    and "string_usernames us \<Longrightarrow> \<forall>j<i. username_of (us ! j) \<noteq> JStr n"
proof -
  from array_find_Some [OF assms] have a: "i < length us" "us ! i = u"
    "username_is (JStr n) u = Inr True" "\<forall>j<i. username_is (JStr n) (us ! j) = Inr False"
    by auto
  show "i < length us" "us ! i = u" by fact+
  show n: "username_of u = JStr n" using a(3) by (rule username_is_True)
  then show o: "\<exists>ps. u = JObj ps" unfolding username_of_def by (rule get_prop_string_obj)
  then show "truthy u" by auto
  assume s: "string_usernames us"
  show "\<forall>j<i. username_of (us ! j) \<noteq> JStr n"
  proof (intro allI impI)
    fix j assume j: "j < i"
    with a(1) s have "is_string (username_of (us ! j))"
      by (simp add: string_usernames_def list_all_length)
    from username_is_string [OF this, of n] a(4) j show "username_of (us ! j) \<noteq> JStr n"
      by simp
  qed
qed

lemma not_found_absent:
  assumes "string_usernames us"
    and "array_find (username_is (JStr n)) us = Inr found"
    and "\<not> truthy (found_value found)"
  shows "JStr n \<notin> set (map username_of us)" and "found = None"
proof -
  show f: "found = None"
  proof (cases found)
    case None then show ?thesis .
  next
    case (Some a)
    obtain i u where "a = (i, u)" by (cases a)
    with Some assms(2,3) found_string_user(5) [of n us i u] show ?thesis by simp
  qed
  from array_find_None assms(2) f have "\<forall>u\<in>set us. username_is (JStr n) u = Inr False"
    by blast
  moreover from assms(1) have "\<forall>u\<in>set us. is_string (username_of u)"
    by (simp add: string_usernames_def list_all_iff)
  ultimately show "JStr n \<notin> set (map username_of us)"
    by (auto simp: username_is_string)
qed

subsection \<open>What the users file holds\<close>

lemma read_users_array:
  "fst (readJson usersFile w) = JArr us \<Longrightarrow> stored_users w = us"
  by (auto simp: readJson_def stored_users_def split: file_state.splits)

lemma readJson_writeJson:
  "\<not> read_only w p \<Longrightarrow> readJson p (writeJson p d w) = (toJSON d, writeJson p d w)"
  by (simp add: readJson_def writeJson_def del: toJSON.simps)

lemma read_written_users:
  "\<not> read_only w usersFile \<Longrightarrow>
   readJson usersFile (writeJson usersFile (JArr us) (snd (readJson usersFile w))) =
     (JArr (map json_elem us), writeJson usersFile (JArr us) (snd (readJson usersFile w)))"
  by (simp add: readJson_writeJson toJSON_JArr del: toJSON.simps)

subsection \<open>Login\<close>

lemma strict_eq_JStr_left [simp]: "strict_eq (JStr n) x \<longleftrightarrow> x = JStr n"
  by (cases x) auto

lemma post_login_not_found:
  assumes "\<not> nullish body"
    and "js_find (fst (readJson usersFile w)) (get_prop body ''username'') = Inr found"
    and "\<not> truthy (found_value found)"
  shows "post_login hmac body w =
           (Response 400 (error_body ''Invalid credentials.''), snd (readJson usersFile w))"
  using assms by (simp add: post_login_def Let_def case_prod_beta)

lemma post_login_mismatch:
  assumes "\<not> nullish body"
    and "js_find (fst (readJson usersFile w)) (get_prop body ''username'') = Inr found"
    and "truthy (found_value found)"
    and "hmac_hex hmac (get_prop (found_value found) ''salt'') (get_prop body ''password'') = Inr h"
    and "get_prop (found_value found) ''passwordHash'' \<noteq> JStr h"
  shows "post_login hmac body w =
           (Response 400 (error_body ''Invalid credentials.''), snd (readJson usersFile w))"
  using assms by (simp add: post_login_def Let_def case_prod_beta)

lemma post_login_match:
  assumes "\<not> nullish body"
    and "js_find (fst (readJson usersFile w)) (get_prop body ''username'') = Inr found"
    and "truthy (found_value found)"
    and "hmac_hex hmac (get_prop (found_value found) ''salt'') (get_prop body ''password'') = Inr h"
    and "get_prop (found_value found) ''passwordHash'' = JStr h"
  shows "post_login hmac body w =
           (res_json 200 (rest_without [''passwordHash'', ''salt''] (found_value found)),
            snd (readJson usersFile w))"
  using assms by (simp add: post_login_def Let_def case_prod_beta)

lemma post_login_cases:
  "fst (post_login hmac body w) = Uncaught \<or>
   fst (post_login hmac body w) = Response 400 (error_body ''Invalid credentials.'') \<or>
   (\<exists>us i ps. fst (readJson usersFile w) = JArr us \<and> i < length us \<and> us ! i = JObj ps \<and>
      strict_eq (username_of (JObj ps)) (get_prop body ''username'') \<and>
      fst (post_login hmac body w) =
        Response 200
          (toJSON (JObj (filter (\<lambda>(k, v). k \<noteq> ''passwordHash'' \<and> k \<noteq> ''salt'') ps))))"
proof (cases "nullish body")
  case True
  then show ?thesis by (simp add: post_login_def)
next
  case nb: False
  show ?thesis
  proof (cases "js_find (fst (readJson usersFile w)) (get_prop body ''username'')")
    case (Inl e)
    with nb show ?thesis by (simp add: post_login_def Let_def case_prod_beta)
  next
    case (Inr found)
    show ?thesis
    proof (cases "truthy (found_value found)")
      case False
      from post_login_not_found [OF nb Inr False] show ?thesis by simp
    next
      case tr: True
      show ?thesis
      proof (cases "hmac_hex hmac (get_prop (found_value found) ''salt'') (get_prop body ''password'')")
        case (Inl e)
        with nb Inr tr show ?thesis by (simp add: post_login_def Let_def case_prod_beta)
      next
        case h: (Inr h)
        show ?thesis
        proof (cases "get_prop (found_value found) ''passwordHash'' = JStr h")
          case False
          from post_login_mismatch [OF nb Inr tr h False] show ?thesis by simp
        next
          case True
          from tr obtain i u where f: "found = Some (i, u)" by (cases found) auto
          from Inr obtain us where us: "fst (readJson usersFile w) = JArr us"
            by (cases "fst (readJson usersFile w)") (simp_all add: js_find_def)
          with Inr f have "array_find (username_is (get_prop body ''username'')) us = Inr (Some (i, u))"
            by (simp add: js_find_def)
          from array_find_Some [OF this] have iu: "i < length us" "us ! i = u"
            "strict_eq (username_of u) (get_prop body ''username'')"
            by (auto simp: username_is_def username_of_def split: if_splits)
          from True f obtain ps where "u = JObj ps" using get_prop_string_obj by fastforce
          with post_login_match [OF nb Inr tr h True] f us iu show ?thesis
            by (auto simp: res_json_def simp del: toJSON.simps)
        qed
      qed
    qed
  qed
qed

subsection \<open>Profile\<close>

lemma get_user_cases:
  "fst (get_user name w) = Uncaught \<or>
   fst (get_user name w) = Response 404 (error_body ''User not found.'') \<or>
   (\<exists>us i ps. fst (readJson usersFile w) = JArr us \<and> i < length us \<and> us ! i = JObj ps \<and>
      username_of (JObj ps) = JStr name \<and>
      fst (get_user name w) =
        Response 200
          (toJSON (JObj (filter (\<lambda>(k, v). k \<noteq> ''passwordHash'' \<and> k \<noteq> ''salt'') ps))))"
proof (cases "js_find (fst (readJson usersFile w)) (JStr name)")
  case (Inl e)
  then show ?thesis by (simp add: get_user_def Let_def case_prod_beta)
next
  case (Inr found)
  show ?thesis
  proof (cases found)
    case None
    with Inr show ?thesis by (simp add: get_user_def Let_def case_prod_beta)
  next
    case (Some a)
    obtain i u where a: "a = (i, u)" by (cases a)
    from Inr obtain us where us: "fst (readJson usersFile w) = JArr us"
      by (cases "fst (readJson usersFile w)") (simp_all add: js_find_def)
    with Inr Some a have f: "array_find (username_is (JStr name)) us = Inr (Some (i, u))"
      by (simp add: js_find_def)
    from found_string_user [OF f] obtain ps where "i < length us" "us ! i = u" "u = JObj ps"
      "username_of u = JStr name"
      by auto
    with Inr Some a us show ?thesis
      by (auto simp add: get_user_def Let_def case_prod_beta res_json_def
          simp del: toJSON.simps)
  qed
qed

subsection \<open>Stripping\<close>

lemma toJSON_obj_stable:
  assumes "toJSON (JObj ps) = JObj ps"
  shows "\<forall>(k, v)\<in>set ps. v \<noteq> JUndefined \<and> toJSON v = v"
proof -
  let ?h = "\<lambda>(k, v). v \<noteq> JUndefined" and ?g = "\<lambda>(k, v). (k, toJSON v)"
  from assms have eq: "map ?g (filter ?h ps) = ps" by simp
  then have "length (filter ?h ps) = length ps" by (metis length_map)
  then have all: "\<forall>x\<in>set ps. ?h x"
    by (metis length_filter_less less_irrefl)
  then have "filter ?h ps = ps" by (simp add: filter_id_conv)
  with eq have "map ?g ps = map id ps" by simp
  then have "\<forall>x\<in>set ps. ?g x = id x" by (simp only: map_eq_conv)
  with all show ?thesis by auto
qed

lemma rest_without_stable:
  assumes "toJSON (JObj ps) = JObj ps"
  shows "toJSON (rest_without ks (JObj ps)) = rest_without ks (JObj ps)"
proof -
  from toJSON_obj_stable [OF assms]
  have a: "\<forall>(k, v)\<in>set (filter (\<lambda>(k, v). k \<notin> set ks) ps). v \<noteq> JUndefined \<and> toJSON v = v"
    by auto
  have "\<And>qs. \<forall>(k, v)\<in>set qs. v \<noteq> JUndefined \<and> toJSON v = v \<Longrightarrow>
     map (\<lambda>(k, v). (k, toJSON v)) (filter (\<lambda>(k, v). v \<noteq> JUndefined) qs) = qs"
    subgoal for qs by (induction qs) auto
    done
  from this [OF a] show ?thesis by simp
qed

lemma has_key_toJSON_rest:
  "k \<in> set ks \<Longrightarrow> \<not> has_key (toJSON (rest_without ks u)) k"
  by (cases u) (auto simp: image_iff)

lemmas example_defs =
  alice_world_def alice_record_def empty_world_def toy_hmac_def usersFile_def

subsection \<open>Registration\<close>

lemma js_find_array:
  "js_find users x = Inr found \<Longrightarrow>
   \<exists>us. users = JArr us \<and> array_find (username_is x) us = Inr found"
  by (cases users) (simp_all add: js_find_def)

lemma hmac_hex_Inr:
  "hmac_hex hmac key data = Inr h \<Longrightarrow> \<exists>k d. key = JStr k \<and> data = JStr d \<and> h = hmac k d"
  by (auto simp: hmac_hex_def split: jsval.splits)

lemma post_register_cases:
  "(fst (post_register hmac salt body w) = Uncaught \<and>
      files (snd (post_register hmac salt body w)) = files w) \<or>
   post_register hmac salt body w =
      (Response 400 (error_body ''Username and password are required.''), w) \<or>
   (\<exists>us i u. fst (readJson usersFile w) = JArr us \<and>
      array_find (username_is (get_prop body ''username'')) us = Inr (Some (i, u)) \<and>
      post_register hmac salt body w =
        (Response 400 (error_body ''Username already exists.''), snd (readJson usersFile w))) \<or>
   (\<exists>us P found. fst (readJson usersFile w) = JArr us \<and>
      truthy (get_prop body ''username'') \<and> get_prop body ''password'' = JStr P \<and>
      array_find (username_is (get_prop body ''username'')) us = Inr found \<and>
      \<not> truthy (found_value found) \<and>
      post_register hmac salt body w =
        (Response 200 (message_body ''User registered successfully.''),
         writeJson usersFile (JArr (us @ [newUser body (hmac salt P) salt]))
           (snd (readJson usersFile w))))"
proof (cases "nullish body")
  case True
  then show ?thesis by (simp add: post_register_def)
next
  case nb: False
  show ?thesis
  proof (cases "truthy (get_prop body ''username'') \<and> truthy (get_prop body ''password'')")
    case False
    with nb show ?thesis by (auto simp: post_register_def Let_def)
  next
    case tr: True
    show ?thesis
    proof (cases "js_find (fst (readJson usersFile w)) (get_prop body ''username'')")
      case (Inl e)
      with nb tr show ?thesis by (simp add: post_register_def Let_def case_prod_beta)
    next
      case (Inr found)
      from js_find_array [OF this] obtain us where us: "fst (readJson usersFile w) = JArr us"
        "array_find (username_is (get_prop body ''username'')) us = Inr found" by blast
      show ?thesis
      proof (cases "truthy (found_value found)")
        case True
        then obtain i u where "found = Some (i, u)" by (cases found) auto
        with nb tr Inr True us show ?thesis
          by (simp add: post_register_def Let_def case_prod_beta)
      next
        case nf: False
        show ?thesis
        proof (cases "hmac_hex hmac (JStr salt) (get_prop body ''password'')")
          case (Inl e)
          with nb tr Inr nf show ?thesis by (simp add: post_register_def Let_def case_prod_beta)
        next
          case h: (Inr h)
          from hmac_hex_Inr [OF this] obtain P where P: "get_prop body ''password'' = JStr P"
            "h = hmac salt P" by auto
          with nb tr Inr nf h us show ?thesis
            by (simp add: post_register_def Let_def case_prod_beta js_push_def)
        qed
      qed
    qed
  qed
qed

subsection \<open>Points\<close>

lemma map_of_assign_same: "map_of (assign k v ps) k = Some v"
  by (induction ps) auto

lemma map_of_assign_other: "k' \<noteq> k \<Longrightarrow> map_of (assign k v ps) k' = map_of ps k'"
  by (induction ps) auto

lemma get_prop_set_prop_same: "get_prop (set_prop (JObj ps) k v) k = v"
  by (simp add: map_of_assign_same)

lemma get_prop_set_prop_other: "k' \<noteq> k \<Longrightarrow> get_prop (set_prop u k v) k' = get_prop u k'"
  by (cases u) (simp_all add: map_of_assign_other)

lemma typeof_number_body: "typeof_number (get_prop body k) \<Longrightarrow> \<not> nullish body"
  by (cases body) simp_all

lemma js_plus_not_undefined: "js_plus ts a b \<noteq> JUndefined"
  by (simp add: js_plus_def split: option.splits prod.splits)

lemma post_points_invalid:
  "\<not> nullish body \<Longrightarrow> \<not> typeof_number (get_prop body ''points'') \<Longrightarrow>
   post_points ts name body w = (Response 400 (error_body points_error), w)"
  by (simp add: post_points_def Let_def)

lemma post_points_not_found:
  "typeof_number (get_prop body ''points'') \<Longrightarrow>
   js_find (fst (readJson usersFile w)) (JStr name) = Inr None \<Longrightarrow>
   post_points ts name body w =
     (Response 404 (error_body ''User not found.''), snd (readJson usersFile w))"
  by (simp add: post_points_def Let_def case_prod_beta typeof_number_body)

lemma post_points_found:
  assumes "typeof_number (get_prop body ''points'')"
    and "fst (readJson usersFile w) = JArr us"
    and "array_find (username_is (JStr name)) us = Inr (Some (i, user))"
  shows "post_points ts name body w =
    (Response 200 (JObj [(''points'',
        toJSON (js_plus ts (js_or (get_prop user ''points'') (JNum (Finite 0)))
                  (get_prop body ''points'')))]),
     writeJson usersFile
       (JArr (us[i := set_prop user ''points''
                   (js_plus ts (js_or (get_prop user ''points'') (JNum (Finite 0)))
                      (get_prop body ''points''))]))
       (snd (readJson usersFile w)))"
proof -
  from found_string_user [OF assms(3)] obtain ps where u: "user = JObj ps" "truthy user"
    by auto
  have "get_prop (set_prop user ''points''
          (js_plus ts (js_or (get_prop user ''points'') (JNum (Finite 0)))
             (get_prop body ''points''))) ''points'' =
        js_plus ts (js_or (get_prop user ''points'') (JNum (Finite 0))) (get_prop body ''points'')"
    unfolding u(1) by (rule get_prop_set_prop_same)
  moreover have "\<And>v. v \<noteq> JUndefined \<Longrightarrow>
      toJSON (JObj [(''points'', v)]) = JObj [(''points'', toJSON v)]"
    by simp
  ultimately show ?thesis using assms u(2)
    by (simp add: post_points_def Let_def case_prod_beta typeof_number_body js_find_def
        res_json_def js_plus_not_undefined del: toJSON.simps set_prop.simps get_prop.simps)
qed

lemma post_points_cases:
  "files (snd (post_points ts name body w)) = files w \<or>
   (\<exists>us i user. fst (readJson usersFile w) = JArr us \<and>
      typeof_number (get_prop body ''points'') \<and>
      array_find (username_is (JStr name)) us = Inr (Some (i, user)))"
proof (cases "nullish body")
  case True
  then show ?thesis by (simp add: post_points_def)
next
  case nb: False
  show ?thesis
  proof (cases "typeof_number (get_prop body ''points'')")
    case False
    with nb show ?thesis by (simp add: post_points_invalid)
  next
    case ty: True
    show ?thesis
    proof (cases "js_find (fst (readJson usersFile w)) (JStr name)")
      case (Inl e)
      with nb ty show ?thesis by (simp add: post_points_def Let_def case_prod_beta)
    next
      case (Inr found)
      from js_find_array [OF this] obtain us where us: "fst (readJson usersFile w) = JArr us"
        "array_find (username_is (JStr name)) us = Inr found" by blast
      show ?thesis
      proof (cases found)
        case None
        with Inr ty show ?thesis by (simp add: post_points_not_found)
      next
        case (Some a)
        with us ty show ?thesis by (cases a) auto
      qed
    qed
  qed
qed

subsection \<open>The invariant of the user store\<close>

lemma username_of_newUser: "username_of (newUser body h s) = get_prop body ''username''"
  by (simp add: username_of_def newUser_def)

lemma newUser_not_undefined: "newUser body h s \<noteq> JUndefined"
  by (simp add: newUser_def)

lemma username_of_set_prop_points:
  "username_of (set_prop u ''points'' v) = username_of u"
  unfolding username_of_def by (rule get_prop_set_prop_other) simp

lemma stored_users_unchanged:
  "files w' = files w \<Longrightarrow> stored_users w' = stored_users w"
  by (simp add: stored_users_def)

lemma unique_usernames_unchanged:
  "files w' = files w \<Longrightarrow> unique_usernames w \<Longrightarrow> unique_usernames w'"
  using stored_users_unchanged [of w' w] by (simp add: unique_usernames_def)

lemma stored_users_writeJson:
  "stored_users (writeJson usersFile (JArr us) (snd (readJson usersFile w))) =
     (if read_only w usersFile then stored_users w else map json_elem us)"
  by (simp add: stored_users_def files_writeJson toJSON_JArr del: toJSON.simps)

lemma unique_after_write:
  assumes "string_usernames us" and "distinct (map username_of us)"
    and "unique_usernames w"
  shows "unique_usernames (writeJson usersFile (JArr us) (snd (readJson usersFile w)))"
proof (cases "read_only w usersFile")
  case True
  with assms(3) show ?thesis by (simp add: unique_usernames_def stored_users_writeJson)
next
  case False
  then have "stored_users (writeJson usersFile (JArr us) (snd (readJson usersFile w))) =
      map json_elem us"
    by (simp add: stored_users_writeJson)
  moreover have "distinct (map username_of (map json_elem us))"
    using assms(1,2) by (simp only: usernames_json_elem)
  ultimately show ?thesis
    using assms(1) by (simp only: unique_usernames_def string_usernames_json_elem simp_thms)
qed

lemma string_usernames_append:
  "string_usernames (us @ [u]) \<longleftrightarrow> string_usernames us \<and> is_string (username_of u)"
  by (simp add: string_usernames_def)

lemma string_usernames_update:
  "string_usernames us \<Longrightarrow> is_string (username_of u) \<Longrightarrow> string_usernames (us[i := u])"
  by (auto simp: string_usernames_def list_all_iff dest: set_update_subset_insert [THEN subsetD])

lemma usernames_update_same:
  "i < length us \<Longrightarrow> username_of u = username_of (us ! i) \<Longrightarrow>
   map username_of (us[i := u]) = map username_of us"
  by (simp add: map_update list_update_same_conv)

lemma post_login_files: "files (snd (post_login hmac body w)) = files w"
  by (simp add: post_login_def Let_def case_prod_beta split: sum.splits)

lemma get_user_files: "files (snd (get_user name w)) = files w"
  by (simp add: get_user_def Let_def case_prod_beta split: sum.splits)

lemma post_register_preserves:
  assumes inv: "unique_usernames w" and str: "is_string (get_prop body ''username'')"
  shows "unique_usernames (snd (post_register hmac salt body w))"
  using post_register_cases [of hmac salt body w]
proof (elim disjE exE conjE)
  assume "files (snd (post_register hmac salt body w)) = files w"
  then show ?thesis using inv by (rule unique_usernames_unchanged)
next
  assume "post_register hmac salt body w =
    (Response 400 (error_body ''Username and password are required.''), w)"
  with inv show ?thesis by simp
next
  fix us i u
  assume "post_register hmac salt body w =
    (Response 400 (error_body ''Username already exists.''), snd (readJson usersFile w))"
  then have "files (snd (post_register hmac salt body w)) = files w" by simp
  then show ?thesis using inv by (rule unique_usernames_unchanged)
next
  fix us P found
  assume a: "fst (readJson usersFile w) = JArr us"
    "array_find (username_is (get_prop body ''username'')) us = Inr found"
    "\<not> truthy (found_value found)"
    "post_register hmac salt body w =
       (Response 200 (message_body ''User registered successfully.''),
        writeJson usersFile (JArr (us @ [newUser body (hmac salt P) salt]))
          (snd (readJson usersFile w)))"
  from str obtain n where n: "get_prop body ''username'' = JStr n"
    by (auto simp: is_string_iff)
  from read_users_array [OF a(1)] inv
  have us: "string_usernames us" "distinct (map username_of us)"
    by (simp_all add: unique_usernames_def)
  from not_found_absent(1) [OF us(1) a(2) [unfolded n] a(3)]
  have "JStr n \<notin> set (map username_of us)" .
  with us n have "string_usernames (us @ [newUser body (hmac salt P) salt])"
    "distinct (map username_of (us @ [newUser body (hmac salt P) salt]))"
    by (simp_all add: string_usernames_append username_of_newUser)
  from unique_after_write [OF this inv] a(4) show ?thesis by simp
qed

lemma post_points_preserves:
  assumes inv: "unique_usernames w"
  shows "unique_usernames (snd (post_points ts name body w))"
  using post_points_cases [of ts name body w]
proof (elim disjE exE conjE)
  assume "files (snd (post_points ts name body w)) = files w"
  then show ?thesis using inv by (rule unique_usernames_unchanged)
next
  fix us i user
  assume a: "fst (readJson usersFile w) = JArr us"
    "typeof_number (get_prop body ''points'')"
    "array_find (username_is (JStr name)) us = Inr (Some (i, user))"
  let ?u = "set_prop user ''points''
    (js_plus ts (js_or (get_prop user ''points'') (JNum (Finite 0))) (get_prop body ''points''))"
  from read_users_array [OF a(1)] inv
  have us: "string_usernames us" "distinct (map username_of us)"
    by (simp_all add: unique_usernames_def)
  from found_string_user [OF a(3)] have iu: "i < length us" "us ! i = user"
    "username_of user = JStr name" by auto
  have "is_string (username_of ?u)"
    using iu(3) by (simp add: username_of_set_prop_points)
  with us(1) have "string_usernames (us[i := ?u])"
    by (rule string_usernames_update)
  moreover have "map username_of (us[i := ?u]) = map username_of us"
    using iu by (intro usernames_update_same) (simp_all add: username_of_set_prop_points)
  ultimately have "unique_usernames (writeJson usersFile (JArr (us[i := ?u]))
      (snd (readJson usersFile w)))"
    using us(2) inv by (intro unique_after_write) simp_all
  with post_points_found [OF a(2) a(1) a(3), of ts] show ?thesis by simp
qed

lemma post_register_conflict:
  assumes "fst (readJson usersFile w) = JArr us" and "string_usernames us"
    and "JStr n \<in> set (map username_of us)"
    and "get_prop body ''username'' = JStr n" and "n \<noteq> []"
    and "truthy (get_prop body ''password'')"
  shows "post_register hmac salt body w =
           (Response 400 (error_body ''Username already exists.''), w)"
proof -
  from assms(3) obtain k where k: "k < length us" "username_of (us ! k) = JStr n"
    by (auto simp: in_set_conv_nth)
  define i where "i = (LEAST j. j < length us \<and> username_of (us ! j) = JStr n)"
  from k have i: "i < length us \<and> username_of (us ! i) = JStr n"
    unfolding i_def by (intro LeastI [of "\<lambda>j. j < length us \<and> username_of (us ! j) = JStr n" k]) simp
  have "\<forall>j<i. username_of (us ! j) \<noteq> JStr n"
  proof (intro allI impI)
    fix j assume "j < i"
    then have "\<not> (j < length us \<and> username_of (us ! j) = JStr n)"
      unfolding i_def by (rule not_less_Least)
    with \<open>j < i\<close> i show "username_of (us ! j) \<noteq> JStr n" by simp
  qed
  with array_find_first [OF assms(2), of i n] i
  have f: "array_find (username_is (JStr n)) us = Inr (Some (i, us ! i))" by simp
  from found_string_user(5) [OF f] have t: "truthy (us ! i)" .
  have nb: "\<not> nullish body" using assms(4) by (cases body) simp_all
  have w: "snd (readJson usersFile w) = w"
    using assms(1) k(1) by (auto simp: readJson_def split: file_state.splits)
  from nb assms f t w show ?thesis
    by (simp add: post_register_def Let_def case_prod_beta js_find_def)
qed

lemma count_list_distinct:
  "distinct xs \<Longrightarrow> x \<in> set xs \<Longrightarrow> count_list xs x = 1"
  by (induction xs) auto

lemma read_stored_users:
  "stored_users w \<noteq> [] \<Longrightarrow> readJson usersFile w = (JArr (stored_users w), w)"
  by (auto simp: readJson_def stored_users_def split: file_state.splits jsval.splits)

subsection \<open>Login after registration\<close>

lemma newUser_credentials:
  "get_prop (newUser body h s) ''salt'' = JStr s"
  "get_prop (newUser body h s) ''passwordHash'' = JStr h"
  by (simp_all add: newUser_def)

lemma register_then_login_aux:
  assumes us: "fst (readJson usersFile w) = JArr us" and str: "string_usernames us"
    and wr: "\<not> read_only w usersFile"
    and nf: "array_find (username_is (JStr n)) us = Inr found" "\<not> truthy (found_value found)"
    and un: "get_prop body ''username'' = JStr n"
    and b': "get_prop body' ''username'' = JStr n" "get_prop body' ''password'' = JStr P"
  shows "post_login hmac body'
           (writeJson usersFile (JArr (us @ [newUser body (hmac salt P) salt]))
              (snd (readJson usersFile w))) =
         (res_json 200 (rest_without [''passwordHash'', ''salt'']
                          (toJSON (newUser body (hmac salt P) salt))),
          writeJson usersFile (JArr (us @ [newUser body (hmac salt P) salt]))
              (snd (readJson usersFile w)))"
proof -
  let ?nu = "newUser body (hmac salt P) salt"
  let ?w' = "writeJson usersFile (JArr (us @ [?nu])) (snd (readJson usersFile w))"
  have r: "readJson usersFile ?w' = (JArr (map json_elem us @ [toJSON ?nu]), ?w')"
    using read_written_users [OF wr, of "us @ [?nu]"]
    by (simp add: json_elem_def newUser_not_undefined del: toJSON.simps)
  from not_found_absent(1) [OF str nf] have absent: "JStr n \<notin> set (map username_of us)" .
  then have "JStr n \<notin> set (map username_of (map json_elem us))"
    unfolding usernames_json_elem [OF str] .
  with string_usernames_json_elem [OF str]
  have none: "array_find (username_is (JStr n)) (map json_elem us) = Inr None"
    by (rule array_find_absent)
  have nm: "username_of (toJSON ?nu) = JStr n"
    unfolding username_of_def
    by (rule get_prop_toJSON_string) (simp add: username_of_newUser [unfolded username_of_def] un)
  then have "username_is (JStr n) (toJSON ?nu) = Inr True"
    by (simp add: username_is_string)
  from array_find_append_None [OF none this]
  have f: "js_find (fst (readJson usersFile ?w')) (get_prop body' ''username'') =
      Inr (Some (length us, toJSON ?nu))"
    by (simp add: r b' js_find_def del: toJSON.simps)
  have nb: "\<not> nullish body'" using b'(1) by (cases body') simp_all
  have t: "truthy (found_value (Some (length us, toJSON ?nu)))"
    by (simp add: newUser_def)
  have s: "get_prop (toJSON ?nu) ''salt'' = JStr salt"
    "get_prop (toJSON ?nu) ''passwordHash'' = JStr (hmac salt P)"
    by (rule get_prop_toJSON_string, rule newUser_credentials)+
  have h: "hmac_hex hmac (get_prop (found_value (Some (length us, toJSON ?nu))) ''salt'')
      (get_prop body' ''password'') = Inr (hmac salt P)"
    by (simp add: s b' hmac_hex_def del: toJSON.simps)
  have e: "get_prop (found_value (Some (length us, toJSON ?nu))) ''passwordHash'' =
      JStr (hmac salt P)"
    by (simp add: s del: toJSON.simps)
  from post_login_match [OF nb f t h e] r show ?thesis
    by (simp del: toJSON.simps)
qed

lemma stored_users_after_register:
  assumes "\<not> read_only w usersFile"
  shows "stored_users (writeJson usersFile (JArr (us @ [u])) (snd (readJson usersFile w))) =
         map json_elem us @ [json_elem u]"
  using assms by (simp add: stored_users_writeJson)

subsection \<open>Adding points\<close>

lemma round_double_safe: "\<bar>n\<bar> \<le> 2 ^ 53 \<Longrightarrow> round_double n = Finite n"
  by (simp add: round_double_def)

lemma js_or_points_finite:
  "js_or (JNum (Finite a)) (JNum (Finite 0)) = JNum (Finite a)"
  by (simp add: js_or_def)

lemma js_or_points_nullish:
  "nullish v \<Longrightarrow> js_or v (JNum (Finite 0)) = JNum (Finite 0)"
  by (cases v) (simp_all add: js_or_def)

lemma js_plus_finite:
  "\<bar>a + d\<bar> \<le> 2 ^ 53 \<Longrightarrow>
   js_plus ts (JNum (Finite a)) (JNum (Finite d)) = JNum (Finite (a + d))"
  by (simp add: js_plus_def round_double_safe)

lemma number_add_not_finite:
  "x = NaN \<or> x = PosInf \<or> x = NegInf \<Longrightarrow> \<forall>k. number_add (Finite a) x \<noteq> Finite k"
  by auto

lemma toJSON_not_finite: "\<forall>k. x \<noteq> Finite k \<Longrightarrow> toJSON (JNum x) = JNull"
  by (cases x) simp_all

lemma stored_points_after:
  assumes "fst (readJson usersFile w) = JArr us"
    and "array_find (username_is (JStr name)) us = Inr (Some (i, user))"
    and "\<not> read_only w usersFile" and "v \<noteq> JUndefined"
  shows "files (writeJson usersFile (JArr (us[i := set_prop user ''points'' v]))
                  (snd (readJson usersFile w))) usersFile =
           Document (toJSON (JArr (us[i := set_prop user ''points'' v])))"
    and "get_prop (stored_users (writeJson usersFile (JArr (us[i := set_prop user ''points'' v]))
                  (snd (readJson usersFile w))) ! i) ''points'' = toJSON v"
proof -
  show "files (writeJson usersFile (JArr (us[i := set_prop user ''points'' v]))
                  (snd (readJson usersFile w))) usersFile =
           Document (toJSON (JArr (us[i := set_prop user ''points'' v])))"
    using assms(3) by (simp add: files_writeJson del: toJSON.simps)
  from found_string_user [OF assms(2)] obtain ps where u: "i < length us" "user = JObj ps"
    by auto
  have "get_prop (toJSON (set_prop user ''points'' v)) ''points'' = toJSON v"
    by (rule get_prop_toJSON) (simp_all add: u(2) map_of_assign_same assms(4))
  with u assms(3) show "get_prop (stored_users (writeJson usersFile
      (JArr (us[i := set_prop user ''points'' v])) (snd (readJson usersFile w))) ! i) ''points''
      = toJSON v"
    by (simp add: stored_users_writeJson json_elem_def del: toJSON.simps)
qed

lemma lookup_after_points:
  assumes us: "fst (readJson usersFile w) = JArr us" and str: "string_usernames us"
    and f: "array_find (username_is (JStr name)) us = Inr (Some (i, user))"
    and wr: "\<not> read_only w usersFile"
  shows "\<exists>us'. fst (readJson usersFile (writeJson usersFile
              (JArr (us[i := set_prop user ''points'' v])) (snd (readJson usersFile w)))) = JArr us' \<and>
           array_find (username_is (JStr name)) us' =
             Inr (Some (i, toJSON (set_prop user ''points'' v)))"
proof -
  let ?u = "set_prop user ''points'' v"
  let ?L = "map json_elem (us[i := ?u])"
  from found_string_user [OF f] str obtain ps where u: "i < length us" "us ! i = user"
    "username_of user = JStr name" "user = JObj ps"
    "\<forall>j<i. username_of (us ! j) \<noteq> JStr name"
    by auto
  have su: "string_usernames (us[i := ?u])"
    using str u(3) by (intro string_usernames_update) (simp_all add: username_of_set_prop_points)
  have names: "map username_of ?L = map username_of us"
    unfolding usernames_json_elem [OF su]
    using u(1,2,3) by (intro usernames_update_same) (simp_all add: username_of_set_prop_points)
  have r: "fst (readJson usersFile (writeJson usersFile (JArr (us[i := ?u]))
      (snd (readJson usersFile w)))) = JArr ?L"
    using read_written_users [OF wr, of "us[i := ?u]"] by simp
  have li: "?L ! i = toJSON ?u"
    using u(1,4) by (simp add: json_elem_def del: toJSON.simps)
  have nth: "\<And>j. j < length us \<Longrightarrow> username_of (?L ! j) = username_of (us ! j)"
  proof -
    fix j assume "j < length us"
    then have "map username_of ?L ! j = map username_of us ! j" by (simp only: names)
    with \<open>j < length us\<close> show "username_of (?L ! j) = username_of (us ! j)"
      by (simp del: map_map)
  qed
  have "array_find (username_is (JStr name)) ?L = Inr (Some (i, ?L ! i))"
  proof (rule array_find_first)
    show "string_usernames ?L" using su by (rule string_usernames_json_elem)
    show "i < length ?L" using u(1) by simp
    show "username_of (?L ! i) = JStr name" using nth [OF u(1)] u(2,3) by simp
    show "\<forall>j<i. username_of (?L ! j) \<noteq> JStr name"
    proof (intro allI impI)
      fix j assume j: "j < i"
      with u(1) have "j < length us" by simp
      from nth [OF this] u(5) j show "username_of (?L ! j) \<noteq> JStr name" by simp
    qed
  qed
  with r li show ?thesis by (simp del: toJSON.simps)
qed

lemma get_prop_toJSON_set_prop:
  "v \<noteq> JUndefined \<Longrightarrow> get_prop (toJSON (set_prop (JObj ps) k v)) k = toJSON v"
  by (rule get_prop_toJSON) (simp_all add: map_of_assign_same)
section \<open>The record store absorbs read failures\<close>

text \<open>
  Claim C8. \<^verbatim>\<open>readJson\<close> returns a value for every state of the backing file, whatever
  the path: for an absent file the empty array, with nothing logged; for a file that
  cannot be read or parsed the empty array, after logging the failure. In each of these
  cases the caller receives what it would receive from a file holding the empty array.
\<close>

theorem readJson_absorbs_failures:
  "(files w p = Absent \<longrightarrow> readJson p w = (JArr [], w)) \<and>
   (files w p = Unreadable \<or> files w p = Malformed \<longrightarrow>
      readJson p w = (JArr [], w\<lparr>stderr := stderr w @ [ErrorReading p]\<rparr>)) \<and>
   (files w p = Absent \<or> files w p = Unreadable \<or> files w p = Malformed \<longrightarrow>
      fst (readJson p w) =
      fst (readJson p (w\<lparr>files := (files w)(p := Document (JArr []))\<rparr>)))"
  by (auto simp: readJson_def)

theorem readJson_absorbs_failures_witness:
  "files (empty_world\<lparr>files := (files empty_world)(usersFile := Malformed)\<rparr>) usersFile
     = Malformed \<and>
   readJson usersFile (empty_world\<lparr>files := (files empty_world)(usersFile := Malformed)\<rparr>) =
     (JArr [], empty_world\<lparr>files := (files empty_world)(usersFile := Malformed),
                           stderr := [ErrorReading usersFile]\<rparr>) \<and>
   files empty_world progressFile = Absent \<and>
   readJson progressFile empty_world = (JArr [], empty_world)"
  using readJson_absorbs_failures
      [of "empty_world\<lparr>files := (files empty_world)(usersFile := Malformed)\<rparr>" usersFile]
    readJson_absorbs_failures [of empty_world progressFile]
  by (simp add: empty_world_def)

section \<open>Community posts\<close>

text \<open>
  Claim C7. A request to create a post whose username or description is missing (or
  otherwise falsy) is answered with status 400 and the validation message, and the world
  is left as it was: nothing is appended to the stored posts.
\<close>

theorem post_community_rejects_incomplete:
  assumes "\<not> nullish body"
    and "\<not> truthy (get_prop body ''username'') \<or> \<not> truthy (get_prop body ''description'')"
  shows "post_community now body w =
           (Response 400 (error_body ''Post must include a username and description.''), w)"
  using assms by (auto simp: post_community_def Let_def)

theorem post_community_rejects_incomplete_witness:
  "\<not> nullish (JObj [(''username'', JStr ''carol'')]) \<and>
   \<not> truthy (get_prop (JObj [(''username'', JStr ''carol'')]) ''description'') \<and>
   post_community ''2024-01-01T00:00:00.000Z'' (JObj [(''username'', JStr ''carol'')])
       empty_world =
     (Response 400 (error_body ''Post must include a username and description.''),
      empty_world)"
  using post_community_rejects_incomplete
    [of "JObj [(''username'', JStr ''carol'')]" "''2024-01-01T00:00:00.000Z''" empty_world]
  by simp

section \<open>Progress entries\<close>

text \<open>
  Claim C6. With a request body present, logging progress is answered with the 400
  validation error exactly when steps and minutes are both absent (\<^verbatim>\<open>null\<close> or
  \<^verbatim>\<open>undefined\<close>), and then the world is unchanged. Otherwise, on a log that is an array
  and a writable file, the answer is 200 and the stored log is the serialisation of the
  old entries followed by one new entry carrying the route's username and the server's
  timestamp; the users file plays no part in the answer. Listing the progress of a
  username returns the stored entries whose username is that string, in stored order.
  On an absent log, logging 500 steps for bob and then listing bob's progress returns
  exactly one entry, with steps 500 and minutes \<^verbatim>\<open>null\<close>.
\<close>

theorem progress_log_and_list:
  assumes "\<not> nullish body"
  shows
    "(fst (post_progress now name body w) =
        Response 400 (error_body ''Please provide steps or minutes.'')
      \<longleftrightarrow> nullish (get_prop body ''steps'') \<and> nullish (get_prop body ''minutes'')) \<and>
     (nullish (get_prop body ''steps'') \<and> nullish (get_prop body ''minutes'')
      \<longrightarrow> snd (post_progress now name body w) = w) \<and>
     (\<not> (nullish (get_prop body ''steps'') \<and> nullish (get_prop body ''minutes'')) \<and>
      fst (readJson progressFile w) = JArr es \<and> \<not> read_only w progressFile
      \<longrightarrow> fst (post_progress now name body w) =
            Response 200 (message_body ''Progress logged successfully.'') \<and>
          files (snd (post_progress now name body w)) progressFile =
            Document (toJSON (JArr (es @
              [JObj [(''username'', JStr name),
                     (''steps'', js_or (get_prop body ''steps'') JNull),
                     (''minutes'', js_or (get_prop body ''minutes'') JNull),
                     (''timestamp'', JStr now)]])))) \<and>
     fst (post_progress now name body (w\<lparr>files := (files w)(usersFile := f)\<rparr>)) =
       fst (post_progress now name body w) \<and>
     (fst (readJson progressFile w) = JArr es \<and> (\<forall>e\<in>set es. \<not> nullish e)
      \<longrightarrow> fst (get_progress name w) =
            Response 200
              (toJSON (JArr (filter (\<lambda>p. get_prop p ''username'' = JStr name) es)))) \<and>
     (files w progressFile = Absent \<and> \<not> read_only w progressFile
      \<longrightarrow> fst (get_progress ''bob''
                 (snd (post_progress now ''bob''
                        (JObj [(''steps'', JNum (Finite 500))]) w))) =
            Response 200
              (JArr [JObj [(''username'', JStr ''bob''), (''steps'', JNum (Finite 500)),
                           (''minutes'', JNull), (''timestamp'', JStr now)]]))"
proof (intro conjI impI)
  show "fst (post_progress now name body w) =
          Response 400 (error_body ''Please provide steps or minutes.'')
        \<longleftrightarrow> nullish (get_prop body ''steps'') \<and> nullish (get_prop body ''minutes'')"
    by (rule post_progress_400_iff [OF assms])
next
  assume "nullish (get_prop body ''steps'') \<and> nullish (get_prop body ''minutes'')"
  then show "snd (post_progress now name body w) = w"
    by (simp add: post_progress_rejected [OF assms])
next
  assume a: "\<not> (nullish (get_prop body ''steps'') \<and> nullish (get_prop body ''minutes'')) \<and>
    fst (readJson progressFile w) = JArr es \<and> \<not> read_only w progressFile"
  then show "fst (post_progress now name body w) =
      Response 200 (message_body ''Progress logged successfully.'')"
    using post_progress_appends(1) [OF assms] by blast
  from a show "files (snd (post_progress now name body w)) progressFile =
      Document (toJSON (JArr (es @
        [JObj [(''username'', JStr name),
               (''steps'', js_or (get_prop body ''steps'') JNull),
               (''minutes'', js_or (get_prop body ''minutes'') JNull),
               (''timestamp'', JStr now)]])))"
    using post_progress_appends(2) [OF assms] by blast
next
  show "fst (post_progress now name body (w\<lparr>files := (files w)(usersFile := f)\<rparr>)) =
      fst (post_progress now name body w)"
    by (rule post_progress_ignores_users)
next
  assume "fst (readJson progressFile w) = JArr es \<and> (\<forall>e\<in>set es. \<not> nullish e)"
  then show "fst (get_progress name w) =
      Response 200 (toJSON (JArr (filter (\<lambda>p. get_prop p ''username'' = JStr name) es)))"
    using get_progress_filter by blast
next
  assume "files w progressFile = Absent \<and> \<not> read_only w progressFile"
  then show "fst (get_progress ''bob''
      (snd (post_progress now ''bob'' (JObj [(''steps'', JNum (Finite 500))]) w))) =
    Response 200
      (JArr [JObj [(''username'', JStr ''bob''), (''steps'', JNum (Finite 500)),
                   (''minutes'', JNull), (''timestamp'', JStr now)]])"
    using progress_example by blast
qed

theorem progress_log_and_list_witness:
  "\<not> nullish (JObj [(''steps'', JNum (Finite 500))]) \<and>
   \<not> (nullish (get_prop (JObj [(''steps'', JNum (Finite 500))]) ''steps'') \<and>
      nullish (get_prop (JObj [(''steps'', JNum (Finite 500))]) ''minutes'')) \<and>
   fst (readJson progressFile empty_world) = JArr [] \<and>
   \<not> read_only empty_world progressFile \<and>
   files empty_world progressFile = Absent \<and>
   fst (post_progress ''2024-01-04T00:00:00.000Z'' ''bob'' (JObj [(''steps'', JNum (Finite 500))])
          empty_world) = Response 200 (message_body ''Progress logged successfully.'') \<and>
   files (snd (post_progress ''2024-01-04T00:00:00.000Z'' ''bob''
                 (JObj [(''steps'', JNum (Finite 500))]) empty_world)) progressFile =
     Document (JArr [JObj [(''username'', JStr ''bob''), (''steps'', JNum (Finite 500)),
                           (''minutes'', JNull),
                           (''timestamp'', JStr ''2024-01-04T00:00:00.000Z'')]]) \<and>
   fst (get_progress ''bob''
          (snd (post_progress ''2024-01-04T00:00:00.000Z'' ''bob''
                  (JObj [(''steps'', JNum (Finite 500))]) empty_world))) =
     Response 200 (JArr [JObj [(''username'', JStr ''bob''), (''steps'', JNum (Finite 500)),
                               (''minutes'', JNull),
                               (''timestamp'', JStr ''2024-01-04T00:00:00.000Z'')]]) \<and>
   \<not> nullish (JObj []) \<and>
   nullish (get_prop (JObj []) ''steps'') \<and> nullish (get_prop (JObj []) ''minutes'') \<and>
   post_progress ''2024-01-04T00:00:00.000Z'' ''bob'' (JObj []) progress_world =
     (Response 400 (error_body ''Please provide steps or minutes.''), progress_world) \<and>
   fst (get_progress ''bob'' progress_world) =
     Response 200 (JArr
       [JObj [(''username'', JStr ''bob''), (''steps'', JNum (Finite 500)), (''minutes'', JNull),
              (''timestamp'', JStr ''2024-01-01T00:00:00.000Z'')],
        JObj [(''username'', JStr ''bob''), (''steps'', JNum (Finite 20)), (''minutes'', JNull),
              (''timestamp'', JStr ''2024-01-03T00:00:00.000Z'')]])"
proof -
  have b: "\<not> nullish (JObj [(''steps'', JNum (Finite 500))])" and e: "\<not> nullish (JObj [])"
    by simp_all
  have p: "post_progress ''2024-01-04T00:00:00.000Z'' ''bob'' (JObj []) progress_world =
     (fst (post_progress ''2024-01-04T00:00:00.000Z'' ''bob'' (JObj []) progress_world),
      snd (post_progress ''2024-01-04T00:00:00.000Z'' ''bob'' (JObj []) progress_world))"
    by simp
  show ?thesis
    using progress_log_and_list [OF b, of "''2024-01-04T00:00:00.000Z''" "''bob''" empty_world
        "[]" Absent]
      progress_log_and_list [OF e, of "''2024-01-04T00:00:00.000Z''" "''bob''" progress_world
        "[JObj [(''username'', JStr ''bob''), (''steps'', JNum (Finite 500)),
                    (''minutes'', JNull), (''timestamp'', JStr ''2024-01-01T00:00:00.000Z'')],
              JObj [(''username'', JStr ''amy''), (''steps'', JNull),
                    (''minutes'', JNum (Finite 30)),
                    (''timestamp'', JStr ''2024-01-02T00:00:00.000Z'')],
              JObj [(''username'', JStr ''bob''), (''steps'', JNum (Finite 20)),
                    (''minutes'', JNull), (''timestamp'', JStr ''2024-01-03T00:00:00.000Z'')]]"
        Absent]
    apply (subst p)
    apply (simp add: readJson_def empty_world_def progress_world_def js_or_def)
    done
qed

text \<open>
  Claim C9. A progress request that supplies steps = 0 and no minutes passes the
  validation (0 is neither \<^verbatim>\<open>null\<close> nor \<^verbatim>\<open>undefined\<close>), and the entry that is
  stored has steps \<^verbatim>\<open>null\<close> and minutes \<^verbatim>\<open>null\<close>: the falsy 0 is replaced by \<^verbatim>\<open>null\<close>
  before the entry is written.
\<close>

theorem zero_steps_stored_as_null:
  assumes "\<not> nullish body"
    and "get_prop body ''steps'' = JNum (Finite 0)"
    and "nullish (get_prop body ''minutes'')"
    and "fst (readJson progressFile w) = JArr es"
    and "\<not> read_only w progressFile"
  shows "fst (post_progress now name body w) =
           Response 200 (message_body ''Progress logged successfully.'') \<and>
         files (snd (post_progress now name body w)) progressFile =
           Document (JArr (map json_elem es @
             [JObj [(''username'', JStr name), (''steps'', JNull), (''minutes'', JNull),
                    (''timestamp'', JStr now)]]))"
proof -
  have present: "\<not> (nullish (get_prop body ''steps'') \<and> nullish (get_prop body ''minutes''))"
    using assms(2) by simp
  have "js_or (get_prop body ''steps'') JNull = JNull"
    using assms(2) by (simp add: js_or_def)
  moreover have "js_or (get_prop body ''minutes'') JNull = JNull"
    using assms(3) by (cases "get_prop body ''minutes''") (simp_all add: js_or_def)
  ultimately show ?thesis
    using post_progress_appends [OF assms(1) present assms(4), of now name] assms(5)
    by (simp add: json_elem_def)
qed

theorem zero_steps_stored_as_null_witness:
  "\<not> nullish (JObj [(''steps'', JNum (Finite 0))]) \<and>
   get_prop (JObj [(''steps'', JNum (Finite 0))]) ''steps'' = JNum (Finite 0) \<and>
   nullish (get_prop (JObj [(''steps'', JNum (Finite 0))]) ''minutes'') \<and>
   fst (readJson progressFile empty_world) = JArr [] \<and>
   \<not> read_only empty_world progressFile \<and>
   fst (post_progress ''2024-01-04T00:00:00.000Z'' ''bob'' (JObj [(''steps'', JNum (Finite 0))])
          empty_world) = Response 200 (message_body ''Progress logged successfully.'') \<and>
   files (snd (post_progress ''2024-01-04T00:00:00.000Z'' ''bob''
                 (JObj [(''steps'', JNum (Finite 0))]) empty_world)) progressFile =
     Document (JArr [JObj [(''username'', JStr ''bob''), (''steps'', JNull),
                           (''minutes'', JNull),
                           (''timestamp'', JStr ''2024-01-04T00:00:00.000Z'')]])"
proof -
  have h: "\<not> nullish (JObj [(''steps'', JNum (Finite 0))])"
    "get_prop (JObj [(''steps'', JNum (Finite 0))]) ''steps'' = JNum (Finite 0)"
    "nullish (get_prop (JObj [(''steps'', JNum (Finite 0))]) ''minutes'')"
    "fst (readJson progressFile empty_world) = JArr []"
    "\<not> read_only empty_world progressFile"
    by (simp_all add: readJson_def empty_world_def)
  show ?thesis
    using h zero_steps_stored_as_null [OF h, of "''2024-01-04T00:00:00.000Z''" "''bob''"]
    by simp
qed

section \<open>Profiles without credentials\<close>

text \<open>
  Claim C3. Whenever login or the profile lookup answers with status 200, the payload is
  the serialisation of a record of the users file (the one the lookup matched) from which
  exactly the properties passwordHash and salt have been removed, the other properties
  staying in place; when the record is as serialisation leaves it, the payload is that
  record without the two properties, unchanged otherwise. No answer of either handler,
  whatever its status, has a passwordHash or a salt property.
\<close>

theorem success_payload_strips_credentials:
  "(fst (post_login hmac body w) = Response 200 payload \<longrightarrow>
      (\<exists>us i ps. fst (readJson usersFile w) = JArr us \<and> i < length us \<and> us ! i = JObj ps \<and>
         strict_eq (username_of (JObj ps)) (get_prop body ''username'') \<and>
         payload = toJSON (JObj (filter (\<lambda>(k, v). k \<noteq> ''passwordHash'' \<and> k \<noteq> ''salt'') ps)) \<and>
         (toJSON (JObj ps) = JObj ps \<longrightarrow>
            payload = JObj (filter (\<lambda>(k, v). k \<noteq> ''passwordHash'' \<and> k \<noteq> ''salt'') ps)))) \<and>
   (fst (get_user name w) = Response 200 payload \<longrightarrow>
      (\<exists>us i ps. fst (readJson usersFile w) = JArr us \<and> i < length us \<and> us ! i = JObj ps \<and>
         username_of (JObj ps) = JStr name \<and>
         payload = toJSON (JObj (filter (\<lambda>(k, v). k \<noteq> ''passwordHash'' \<and> k \<noteq> ''salt'') ps)) \<and>
         (toJSON (JObj ps) = JObj ps \<longrightarrow>
            payload = JObj (filter (\<lambda>(k, v). k \<noteq> ''passwordHash'' \<and> k \<noteq> ''salt'') ps)))) \<and>
   (fst (post_login hmac body w) = Response st p \<or> fst (get_user name w) = Response st p
      \<longrightarrow> \<not> has_key p ''passwordHash'' \<and> \<not> has_key p ''salt'')"
proof -
  let ?ks = "[''passwordHash'', ''salt'']"
  have stable: "\<And>ps. toJSON (JObj ps) = JObj ps \<Longrightarrow>
      toJSON (JObj (filter (\<lambda>(k, v). k \<noteq> ''passwordHash'' \<and> k \<noteq> ''salt'') ps)) =
      JObj (filter (\<lambda>(k, v). k \<noteq> ''passwordHash'' \<and> k \<noteq> ''salt'') ps)"
    subgoal for ps using rest_without_stable [of ps ?ks] by simp
    done
  have nokey: "\<And>ps k. k \<in> set ?ks \<Longrightarrow>
      \<not> has_key (toJSON (JObj (filter (\<lambda>(k, v). k \<noteq> ''passwordHash'' \<and> k \<noteq> ''salt'') ps))) k"
    subgoal for ps k using has_key_toJSON_rest [of k ?ks "JObj ps"] by simp
    done
  have err: "\<And>m k. k \<in> set ?ks \<Longrightarrow> \<not> has_key (error_body m) k"
    by (auto simp: error_body_def)
  have login: "fst (post_login hmac body w) = Response 200 payload \<longrightarrow>
      (\<exists>us i ps. fst (readJson usersFile w) = JArr us \<and> i < length us \<and> us ! i = JObj ps \<and>
         strict_eq (username_of (JObj ps)) (get_prop body ''username'') \<and>
         payload = toJSON (JObj (filter (\<lambda>(k, v). k \<noteq> ''passwordHash'' \<and> k \<noteq> ''salt'') ps)) \<and>
         (toJSON (JObj ps) = JObj ps \<longrightarrow>
            payload = JObj (filter (\<lambda>(k, v). k \<noteq> ''passwordHash'' \<and> k \<noteq> ''salt'') ps)))"
  proof
    assume a: "fst (post_login hmac body w) = Response 200 payload"
    with post_login_cases [of hmac body w] obtain us i ps where
      "fst (readJson usersFile w) = JArr us" "i < length us" "us ! i = JObj ps"
      "strict_eq (username_of (JObj ps)) (get_prop body ''username'')"
      "payload = toJSON (JObj (filter (\<lambda>(k, v). k \<noteq> ''passwordHash'' \<and> k \<noteq> ''salt'') ps))"
      by (auto simp: error_body_def simp del: toJSON.simps)
    then show "\<exists>us i ps. fst (readJson usersFile w) = JArr us \<and> i < length us \<and> us ! i = JObj ps \<and>
         strict_eq (username_of (JObj ps)) (get_prop body ''username'') \<and>
         payload = toJSON (JObj (filter (\<lambda>(k, v). k \<noteq> ''passwordHash'' \<and> k \<noteq> ''salt'') ps)) \<and>
         (toJSON (JObj ps) = JObj ps \<longrightarrow>
            payload = JObj (filter (\<lambda>(k, v). k \<noteq> ''passwordHash'' \<and> k \<noteq> ''salt'') ps))"
      using stable [of ps] by blast
  qed
  have profile: "fst (get_user name w) = Response 200 payload \<longrightarrow>
      (\<exists>us i ps. fst (readJson usersFile w) = JArr us \<and> i < length us \<and> us ! i = JObj ps \<and>
         username_of (JObj ps) = JStr name \<and>
         payload = toJSON (JObj (filter (\<lambda>(k, v). k \<noteq> ''passwordHash'' \<and> k \<noteq> ''salt'') ps)) \<and>
         (toJSON (JObj ps) = JObj ps \<longrightarrow>
            payload = JObj (filter (\<lambda>(k, v). k \<noteq> ''passwordHash'' \<and> k \<noteq> ''salt'') ps)))"
  proof
    assume a: "fst (get_user name w) = Response 200 payload"
    with get_user_cases [of name w] obtain us i ps where
      "fst (readJson usersFile w) = JArr us" "i < length us" "us ! i = JObj ps"
      "username_of (JObj ps) = JStr name"
      "payload = toJSON (JObj (filter (\<lambda>(k, v). k \<noteq> ''passwordHash'' \<and> k \<noteq> ''salt'') ps))"
      by (auto simp: error_body_def simp del: toJSON.simps)
    then show "\<exists>us i ps. fst (readJson usersFile w) = JArr us \<and> i < length us \<and> us ! i = JObj ps \<and>
         username_of (JObj ps) = JStr name \<and>
         payload = toJSON (JObj (filter (\<lambda>(k, v). k \<noteq> ''passwordHash'' \<and> k \<noteq> ''salt'') ps)) \<and>
         (toJSON (JObj ps) = JObj ps \<longrightarrow>
            payload = JObj (filter (\<lambda>(k, v). k \<noteq> ''passwordHash'' \<and> k \<noteq> ''salt'') ps))"
      using stable [of ps] by blast
  qed
  have k1: "fst (post_login hmac body w) = Response st p \<Longrightarrow>
      \<not> has_key p ''passwordHash'' \<and> \<not> has_key p ''salt''"
    using post_login_cases [of hmac body w] nokey err
    by (auto simp del: toJSON.simps has_key.simps)
  have k2: "fst (get_user name w) = Response st p \<Longrightarrow>
      \<not> has_key p ''passwordHash'' \<and> \<not> has_key p ''salt''"
    using get_user_cases [of name w] nokey err
    by (auto simp del: toJSON.simps has_key.simps)
  from login profile k1 k2 show ?thesis by blast
qed

theorem success_payload_strips_credentials_witness:
  "fst (post_login toy_hmac (JObj [(''username'', JStr ''alice''), (''password'', JStr ''pw123'')])
         alice_world) =
     Response 200
       (JObj [(''username'', JStr ''alice''), (''name'', JStr ''Alice''), (''agency'', JStr []),
              (''age'', JStr []), (''gender'', JStr []), (''height'', JStr []),
              (''weight'', JStr []), (''exercise'', JStr []), (''fruitsVeg'', JStr []),
              (''water'', JStr []), (''tobacco'', JStr []), (''points'', JNum (Finite 0))]) \<and>
   fst (get_user ''alice'' alice_world) =
     Response 200
       (JObj [(''username'', JStr ''alice''), (''name'', JStr ''Alice''), (''agency'', JStr []),
              (''age'', JStr []), (''gender'', JStr []), (''height'', JStr []),
              (''weight'', JStr []), (''exercise'', JStr []), (''fruitsVeg'', JStr []),
              (''water'', JStr []), (''tobacco'', JStr []), (''points'', JNum (Finite 0))]) \<and>
   \<not> has_key
       (JObj [(''username'', JStr ''alice''), (''name'', JStr ''Alice''), (''agency'', JStr []),
              (''age'', JStr []), (''gender'', JStr []), (''height'', JStr []),
              (''weight'', JStr []), (''exercise'', JStr []), (''fruitsVeg'', JStr []),
              (''water'', JStr []), (''tobacco'', JStr []), (''points'', JNum (Finite 0))])
       ''passwordHash'' \<and>
   \<not> has_key
       (JObj [(''username'', JStr ''alice''), (''name'', JStr ''Alice''), (''agency'', JStr []),
              (''age'', JStr []), (''gender'', JStr []), (''height'', JStr []),
              (''weight'', JStr []), (''exercise'', JStr []), (''fruitsVeg'', JStr []),
              (''water'', JStr []), (''tobacco'', JStr []), (''points'', JNum (Finite 0))])
       ''salt''"
proof -
  let ?profile = "JObj [(''username'', JStr ''alice''), (''name'', JStr ''Alice''),
    (''agency'', JStr []), (''age'', JStr []), (''gender'', JStr []), (''height'', JStr []),
    (''weight'', JStr []), (''exercise'', JStr []), (''fruitsVeg'', JStr []),
    (''water'', JStr []), (''tobacco'', JStr []), (''points'', JNum (Finite 0))]"
  let ?body = "JObj [(''username'', JStr ''alice''), (''password'', JStr ''pw123'')]"
  have l: "fst (post_login toy_hmac ?body alice_world) = Response 200 ?profile"
    by (simp add: post_login_def Let_def readJson_def js_find_def username_is_def hmac_hex_def
        res_json_def example_defs)
  have g: "fst (get_user ''alice'' alice_world) = Response 200 ?profile"
    by (simp add: get_user_def Let_def readJson_def js_find_def username_is_def res_json_def
        example_defs)
  from success_payload_strips_credentials
    [of toy_hmac ?body alice_world ?profile "''alice''" 200 ?profile] l g
  have "\<not> has_key ?profile ''passwordHash'' \<and> \<not> has_key ?profile ''salt''"
    by blast
  with l g show ?thesis by blast
qed

section \<open>Login failures\<close>

text \<open>
  Claim C4. With a request body present, login answers with status 400 and the body
  \<^verbatim>\<open>{error: "Invalid credentials."}\<close> both when the lookup finds no user (in particular
  when no stored record carries the requested username) and when a user is found but the
  digest recomputed from the stored salt differs from the stored hash. Every answer of
  login with status 400 has this one body, so the answer does not tell the two apart.
\<close>

theorem login_failure_is_generic:
  assumes "\<not> nullish body"
  shows
    "(js_find (fst (readJson usersFile w)) (get_prop body ''username'') = Inr found \<and>
      \<not> truthy (found_value found)
      \<longrightarrow> fst (post_login hmac body w) = Response 400 (error_body ''Invalid credentials.'')) \<and>
     (js_find (fst (readJson usersFile w)) (get_prop body ''username'') = Inr found \<and>
      truthy (found_value found) \<and>
      hmac_hex hmac (get_prop (found_value found) ''salt'') (get_prop body ''password'') = Inr h \<and>
      get_prop (found_value found) ''passwordHash'' \<noteq> JStr h
      \<longrightarrow> fst (post_login hmac body w) = Response 400 (error_body ''Invalid credentials.'')) \<and>
     (fst (readJson usersFile w) = JArr us \<and> string_usernames us \<and>
      get_prop body ''username'' = JStr n \<and> JStr n \<notin> set (map username_of us)
      \<longrightarrow> fst (post_login hmac body w) = Response 400 (error_body ''Invalid credentials.'')) \<and>
     (fst (post_login hmac body w) = Response 400 b
      \<longrightarrow> b = error_body ''Invalid credentials.'')"
proof (intro conjI impI)
  assume "js_find (fst (readJson usersFile w)) (get_prop body ''username'') = Inr found \<and>
      \<not> truthy (found_value found)"
  then show "fst (post_login hmac body w) = Response 400 (error_body ''Invalid credentials.'')"
    using post_login_not_found [OF assms, of w found hmac] by simp
next
  assume "js_find (fst (readJson usersFile w)) (get_prop body ''username'') = Inr found \<and>
      truthy (found_value found) \<and>
      hmac_hex hmac (get_prop (found_value found) ''salt'') (get_prop body ''password'') = Inr h \<and>
      get_prop (found_value found) ''passwordHash'' \<noteq> JStr h"
  then show "fst (post_login hmac body w) = Response 400 (error_body ''Invalid credentials.'')"
    using post_login_mismatch [OF assms, of w found hmac h] by simp
next
  assume a: "fst (readJson usersFile w) = JArr us \<and> string_usernames us \<and>
      get_prop body ''username'' = JStr n \<and> JStr n \<notin> set (map username_of us)"
  then have "js_find (fst (readJson usersFile w)) (get_prop body ''username'') = Inr None"
    by (simp add: js_find_def array_find_absent)
  then show "fst (post_login hmac body w) = Response 400 (error_body ''Invalid credentials.'')"
    using post_login_not_found [OF assms, of w None hmac] by simp
next
  assume "fst (post_login hmac body w) = Response 400 b"
  then show "b = error_body ''Invalid credentials.''"
    using post_login_cases [of hmac body w] by auto
qed

theorem login_failure_is_generic_witness:
  "fst (post_login toy_hmac (JObj [(''username'', JStr ''alice''), (''password'', JStr ''wrong'')])
         alice_world) = Response 400 (error_body ''Invalid credentials.'') \<and>
   fst (post_login toy_hmac (JObj [(''username'', JStr ''bob''), (''password'', JStr ''pw123'')])
         alice_world) = Response 400 (error_body ''Invalid credentials.'') \<and>
   fst (post_login toy_hmac (JObj [(''username'', JStr ''alice''), (''password'', JStr ''wrong'')])
         alice_world) =
   fst (post_login toy_hmac (JObj [(''username'', JStr ''bob''), (''password'', JStr ''pw123'')])
         alice_world)"
proof -
  let ?wrong = "JObj [(''username'', JStr ''alice''), (''password'', JStr ''wrong'')]"
  let ?unknown = "JObj [(''username'', JStr ''bob''), (''password'', JStr ''pw123'')]"
  have u: "fst (readJson usersFile alice_world) = JArr [alice_record]"
    by (simp add: readJson_def alice_world_def empty_world_def)
  have 1: "js_find (fst (readJson usersFile alice_world)) (get_prop ?wrong ''username'') =
      Inr (Some (0, alice_record))"
    "truthy (found_value (Some (0, alice_record)))"
    "hmac_hex toy_hmac (get_prop (found_value (Some (0, alice_record))) ''salt'')
       (get_prop ?wrong ''password'') = Inr ''0000''"
    "get_prop (found_value (Some (0, alice_record))) ''passwordHash'' \<noteq> JStr ''0000''"
    unfolding u by (simp_all add: js_find_def username_is_def hmac_hex_def alice_record_def
        toy_hmac_def)
  have 2: "js_find (fst (readJson usersFile alice_world)) (get_prop ?unknown ''username'') =
      Inr None" "\<not> truthy (found_value None)"
    unfolding u by (simp_all add: js_find_def username_is_def alice_record_def)
  have a: "fst (post_login toy_hmac ?wrong alice_world) =
      Response 400 (error_body ''Invalid credentials.'')"
    using login_failure_is_generic [of ?wrong alice_world "Some (0, alice_record)" toy_hmac
        "''0000''" "[]" "[]" JNull] 1
    by simp
  have b: "fst (post_login toy_hmac ?unknown alice_world) =
      Response 400 (error_body ''Invalid credentials.'')"
    using login_failure_is_generic [of ?unknown alice_world None toy_hmac "[]" "[]" "[]" JNull] 2
    by simp
  from a b show ?thesis by simp
qed

section \<open>Unique usernames\<close>

text \<open>
  Claim C2. The invariant of the user store, that the stored usernames are strings and
  pairwise distinct, is kept by every operation on users: by registration (of a username
  that is a string, as the data model has it), by login, by the profile lookup and by
  adding points. In particular, registering a non-empty username that a stored record
  already carries (compared exactly, so case-sensitively) is answered with status 400 and
  \<^verbatim>\<open>Username already exists.\<close>, the world is unchanged, and the store keeps exactly one
  record of that username.
\<close>

theorem username_uniqueness_invariant:
  assumes "unique_usernames w"
  shows
    "(is_string (get_prop body ''username'')
      \<longrightarrow> unique_usernames (snd (post_register hmac salt body w))) \<and>
     unique_usernames (snd (post_login hmac body w)) \<and>
     unique_usernames (snd (get_user name w)) \<and>
     unique_usernames (snd (post_points ts name body w)) \<and>
     (JStr n \<in> set (map username_of (stored_users w)) \<and>
      get_prop body ''username'' = JStr n \<and> n \<noteq> [] \<and> truthy (get_prop body ''password'')
      \<longrightarrow> post_register hmac salt body w =
            (Response 400 (error_body ''Username already exists.''), w) \<and>
          count_list (map username_of (stored_users (snd (post_register hmac salt body w))))
            (JStr n) = 1)"
proof (intro conjI impI)
  assume "is_string (get_prop body ''username'')"
  with assms show "unique_usernames (snd (post_register hmac salt body w))"
    by (rule post_register_preserves)
next
  show "unique_usernames (snd (post_login hmac body w))"
    using post_login_files assms by (rule unique_usernames_unchanged)
next
  show "unique_usernames (snd (get_user name w))"
    using get_user_files assms by (rule unique_usernames_unchanged)
next
  show "unique_usernames (snd (post_points ts name body w))"
    using assms by (rule post_points_preserves)
next
  assume a: "JStr n \<in> set (map username_of (stored_users w)) \<and>
      get_prop body ''username'' = JStr n \<and> n \<noteq> [] \<and> truthy (get_prop body ''password'')"
  then have ne: "stored_users w \<noteq> []" by auto
  from read_stored_users [OF ne] have r: "fst (readJson usersFile w) = JArr (stored_users w)"
    by simp
  from assms have s: "string_usernames (stored_users w)"
    "distinct (map username_of (stored_users w))"
    by (simp_all add: unique_usernames_def)
  from a post_register_conflict [OF r s(1), of n body hmac salt]
  show c: "post_register hmac salt body w =
      (Response 400 (error_body ''Username already exists.''), w)"
    by blast
  from a s(2) show "count_list (map username_of
      (stored_users (snd (post_register hmac salt body w)))) (JStr n) = 1"
    unfolding c by (simp add: count_list_distinct)
qed

theorem username_uniqueness_invariant_witness:
  "unique_usernames alice_world \<and>
   is_string (get_prop (JObj [(''username'', JStr ''bob''), (''password'', JStr ''hunter2'')])
                ''username'') \<and>
   unique_usernames
     (snd (post_register toy_hmac ''a1b2''
             (JObj [(''username'', JStr ''bob''), (''password'', JStr ''hunter2'')])
             alice_world)) \<and>
   map username_of
     (stored_users
        (snd (post_register toy_hmac ''a1b2''
                (JObj [(''username'', JStr ''bob''), (''password'', JStr ''hunter2'')])
                alice_world))) = [JStr ''alice'', JStr ''bob''] \<and>
   JStr ''alice'' \<in> set (map username_of (stored_users alice_world)) \<and>
   post_register toy_hmac ''a1b2''
     (JObj [(''username'', JStr ''alice''), (''password'', JStr ''other'')]) alice_world =
     (Response 400 (error_body ''Username already exists.''), alice_world) \<and>
   count_list (map username_of (stored_users
     (snd (post_register toy_hmac ''a1b2''
        (JObj [(''username'', JStr ''alice''), (''password'', JStr ''other'')]) alice_world))))
     (JStr ''alice'') = 1"
proof -
  let ?bob = "JObj [(''username'', JStr ''bob''), (''password'', JStr ''hunter2'')]"
  let ?dup = "JObj [(''username'', JStr ''alice''), (''password'', JStr ''other'')]"
  have su: "stored_users alice_world = [alice_record]"
    by (simp add: stored_users_def alice_world_def empty_world_def)
  have inv: "unique_usernames alice_world"
    by (simp add: unique_usernames_def su string_usernames_def username_of_def
        alice_record_def)
  have str: "is_string (get_prop ?bob ''username'')" by simp
  have names: "map username_of (stored_users (snd (post_register toy_hmac ''a1b2'' ?bob
      alice_world))) = [JStr ''alice'', JStr ''bob'']"
    by (simp add: post_register_def Let_def readJson_def js_find_def username_is_def
        hmac_hex_def js_push_def writeJson_def newUser_def js_or_def stored_users_def
        username_of_def example_defs)
  have mem: "JStr ''alice'' \<in> set (map username_of (stored_users alice_world))"
    by (simp add: su username_of_def alice_record_def)
  have pre: "get_prop ?dup ''username'' = JStr ''alice''" "''alice'' \<noteq> []"
    "truthy (get_prop ?dup ''password'')"
    by simp_all
  from username_uniqueness_invariant [OF inv, of ?bob toy_hmac "''a1b2''" "''alice''"
      "\<lambda>v. []" "''alice''"] str
  have 1: "unique_usernames (snd (post_register toy_hmac ''a1b2'' ?bob alice_world))"
    by blast
  from username_uniqueness_invariant [OF inv, of ?dup toy_hmac "''a1b2''" "''alice''"
      "\<lambda>v. []" "''alice''"] mem pre
  have 2: "post_register toy_hmac ''a1b2'' ?dup alice_world =
      (Response 400 (error_body ''Username already exists.''), alice_world) \<and>
    count_list (map username_of (stored_users
      (snd (post_register toy_hmac ''a1b2'' ?dup alice_world)))) (JStr ''alice'') = 1"
    by blast
  from inv str 1 names mem 2 show ?thesis by blast
qed

section \<open>Credential round trip\<close>

text \<open>
  Claim C1. Let a registration with a string username succeed, on a writable users file
  whose records carry strings as usernames. Then the password is a string P, the record
  stored last carries the salt drawn and, as its hash, the digest of P keyed by that
  salt; and a login with the same username and password recomputes that digest from the
  stored salt, finds it equal to the stored hash and answers with status 200 and the
  profile of the new record. This holds for every digest function and every salt.
\<close>

theorem register_then_login:
  assumes reg: "fst (post_register hmac salt body w) = Response 200 m"
    and wr: "\<not> read_only w usersFile"
    and str: "string_usernames (stored_users w)"
    and un: "get_prop body ''username'' = JStr n"
    and b': "get_prop body' ''username'' = JStr n"
            "get_prop body' ''password'' = get_prop body ''password''"
  shows "\<exists>P. get_prop body ''password'' = JStr P \<and>
           get_prop (last (stored_users (snd (post_register hmac salt body w)))) ''salt''
             = JStr salt \<and>
           get_prop (last (stored_users (snd (post_register hmac salt body w)))) ''passwordHash''
             = JStr (hmac salt P) \<and>
           fst (post_login hmac body' (snd (post_register hmac salt body w))) =
             Response 200
               (toJSON (rest_without [''passwordHash'', ''salt'']
                          (toJSON (newUser body (hmac salt P) salt))))"
  using post_register_cases [of hmac salt body w]
proof (elim disjE exE conjE)
  assume "fst (post_register hmac salt body w) = Uncaught"
  with reg show ?thesis by simp
next
  assume "post_register hmac salt body w =
    (Response 400 (error_body ''Username and password are required.''), w)"
  with reg show ?thesis by simp
next
  fix us i u
  assume "post_register hmac salt body w =
    (Response 400 (error_body ''Username already exists.''), snd (readJson usersFile w))"
  with reg show ?thesis by simp
next
  fix us P found
  assume a: "fst (readJson usersFile w) = JArr us"
    "get_prop body ''password'' = JStr P"
    "array_find (username_is (get_prop body ''username'')) us = Inr found"
    "\<not> truthy (found_value found)"
    "post_register hmac salt body w =
       (Response 200 (message_body ''User registered successfully.''),
        writeJson usersFile (JArr (us @ [newUser body (hmac salt P) salt]))
          (snd (readJson usersFile w)))"
  let ?nu = "newUser body (hmac salt P) salt"
  from read_users_array [OF a(1)] str have s: "string_usernames us" by simp
  have l: "last (stored_users (snd (post_register hmac salt body w))) = toJSON ?nu"
    unfolding a(5) using stored_users_after_register [OF wr, of us ?nu]
    by (simp add: json_elem_def newUser_not_undefined del: toJSON.simps)
  have c: "get_prop (toJSON ?nu) ''salt'' = JStr salt"
    "get_prop (toJSON ?nu) ''passwordHash'' = JStr (hmac salt P)"
    by (rule get_prop_toJSON_string, rule newUser_credentials)+
  from register_then_login_aux [OF a(1) s wr a(3) [unfolded un] a(4) un b'(1),
      of P hmac salt] b'(2) a(2)
  have "fst (post_login hmac body' (snd (post_register hmac salt body w))) =
      Response 200 (toJSON (rest_without [''passwordHash'', ''salt''] (toJSON ?nu)))"
    unfolding a(5) by (simp add: res_json_def del: toJSON.simps)
  with a(2) c l show ?thesis by (simp del: toJSON.simps)
qed


theorem register_then_login_witness:
  "fst (post_register toy_hmac ''00ff''
          (JObj [(''username'', JStr ''alice''), (''password'', JStr ''pw123'')]) empty_world) =
     Response 200 (message_body ''User registered successfully.'') \<and>
   fst (post_login toy_hmac
          (JObj [(''username'', JStr ''alice''), (''password'', JStr ''pw123'')])
          (snd (post_register toy_hmac ''00ff''
                  (JObj [(''username'', JStr ''alice''), (''password'', JStr ''pw123'')])
                  empty_world))) =
     Response 200
       (JObj [(''username'', JStr ''alice''), (''name'', JStr []), (''agency'', JStr []),
              (''age'', JStr []), (''gender'', JStr []), (''height'', JStr []),
              (''weight'', JStr []), (''exercise'', JStr []), (''fruitsVeg'', JStr []),
              (''water'', JStr []), (''tobacco'', JStr []), (''points'', JNum (Finite 0))])"
proof -
  let ?body = "JObj [(''username'', JStr ''alice''), (''password'', JStr ''pw123'')]"
  have reg: "fst (post_register toy_hmac ''00ff'' ?body empty_world) =
      Response 200 (message_body ''User registered successfully.'')"
    by (simp add: post_register_def Let_def readJson_def js_find_def hmac_hex_def js_push_def
        empty_world_def)
  have wr: "\<not> read_only empty_world usersFile" by (simp add: empty_world_def)
  have str: "string_usernames (stored_users empty_world)"
    by (simp add: string_usernames_def stored_users_def empty_world_def)
  have un: "get_prop ?body ''username'' = JStr ''alice''" by simp
  have pw: "get_prop ?body ''password'' = get_prop ?body ''password''" by simp
  from register_then_login [OF reg wr str un un pw]
  obtain P where P: "get_prop ?body ''password'' = JStr P"
    "fst (post_login toy_hmac ?body (snd (post_register toy_hmac ''00ff'' ?body empty_world))) =
       Response 200 (toJSON (rest_without [''passwordHash'', ''salt'']
         (toJSON (newUser ?body (toy_hmac ''00ff'' P) ''00ff''))))"
    by blast
  from P(1) have "P = ''pw123''" by simp
  with P(2) reg show ?thesis
    by (simp add: newUser_def js_or_def)
qed

section \<open>Adding points\<close>

text \<open>
  Claim C5. Adding points with a delta that is not a number is answered with status 400
  and the validation message, and the world is unchanged. With a numeric delta and a
  username that no stored record carries, the answer is 404 and no file changes. With a
  numeric delta and a user found, on a writable file, the new total is the stored points
  (0 when they are missing, \<^verbatim>\<open>null\<close> or otherwise falsy) plus the delta; this total is
  assigned to the record found, the array is written back, and the answer carries the
  same total as the stored record. For finite integers whose sum stays within the exactly
  representable range the total is their sum, also for a negative delta: from the stored
  points 0 of alice, adding 5 and then -2 answers 3.
\<close>

theorem add_points:
  "(\<not> nullish body \<and> \<not> typeof_number (get_prop body ''points'')
    \<longrightarrow> post_points ts name body w = (Response 400 (error_body points_error), w)) \<and>
   (typeof_number (get_prop body ''points'') \<and>
    fst (readJson usersFile w) = JArr us \<and> string_usernames us \<and>
    JStr name \<notin> set (map username_of us)
    \<longrightarrow> fst (post_points ts name body w) = Response 404 (error_body ''User not found.'') \<and>
        files (snd (post_points ts name body w)) = files w) \<and>
   (typeof_number (get_prop body ''points'') \<and>
    fst (readJson usersFile w) = JArr us \<and>
    array_find (username_is (JStr name)) us = Inr (Some (i, user)) \<and>
    \<not> read_only w usersFile
    \<longrightarrow> fst (post_points ts name body w) =
          Response 200 (JObj [(''points'',
            toJSON (js_plus ts (js_or (get_prop user ''points'') (JNum (Finite 0)))
                      (get_prop body ''points'')))]) \<and>
        files (snd (post_points ts name body w)) usersFile =
          Document (toJSON (JArr (us[i := set_prop user ''points''
            (js_plus ts (js_or (get_prop user ''points'') (JNum (Finite 0)))
               (get_prop body ''points''))]))) \<and>
        get_prop (stored_users (snd (post_points ts name body w)) ! i) ''points'' =
          toJSON (js_plus ts (js_or (get_prop user ''points'') (JNum (Finite 0)))
                    (get_prop body ''points''))) \<and>
   ((get_prop user ''points'' = JNum (Finite a) \<or> nullish (get_prop user ''points'') \<and> a = 0) \<and>
    get_prop body ''points'' = JNum (Finite d) \<and> \<bar>a + d\<bar> \<le> 2 ^ 53
    \<longrightarrow> toJSON (js_plus ts (js_or (get_prop user ''points'') (JNum (Finite 0)))
                  (get_prop body ''points'')) = JNum (Finite (a + d))) \<and>
   fst (post_points ts ''alice'' (JObj [(''points'', JNum (Finite (- 2)))])
          (snd (post_points ts ''alice'' (JObj [(''points'', JNum (Finite 5))]) alice_world))) =
     Response 200 (JObj [(''points'', JNum (Finite 3))])"
proof (intro conjI impI)
  assume "\<not> nullish body \<and> \<not> typeof_number (get_prop body ''points'')"
  then show "post_points ts name body w = (Response 400 (error_body points_error), w)"
    by (simp add: post_points_invalid)
next
  assume a: "typeof_number (get_prop body ''points'') \<and>
    fst (readJson usersFile w) = JArr us \<and> string_usernames us \<and>
    JStr name \<notin> set (map username_of us)"
  then have "js_find (fst (readJson usersFile w)) (JStr name) = Inr None"
    by (simp add: js_find_def array_find_absent)
  with a have p: "post_points ts name body w =
      (Response 404 (error_body ''User not found.''), snd (readJson usersFile w))"
    by (simp add: post_points_not_found)
  show "fst (post_points ts name body w) = Response 404 (error_body ''User not found.'')"
    unfolding p by simp
  show "files (snd (post_points ts name body w)) = files w"
    unfolding p by simp
next
  assume a: "typeof_number (get_prop body ''points'') \<and>
    fst (readJson usersFile w) = JArr us \<and>
    array_find (username_is (JStr name)) us = Inr (Some (i, user)) \<and>
    \<not> read_only w usersFile"
  let ?v = "js_plus ts (js_or (get_prop user ''points'') (JNum (Finite 0)))
    (get_prop body ''points'')"
  from a have p: "post_points ts name body w =
      (Response 200 (JObj [(''points'', toJSON ?v)]),
       writeJson usersFile (JArr (us[i := set_prop user ''points'' ?v]))
         (snd (readJson usersFile w)))"
    by (simp only: post_points_found)
  have v: "?v \<noteq> JUndefined" by (rule js_plus_not_undefined)
  show "fst (post_points ts name body w) = Response 200 (JObj [(''points'', toJSON ?v)])"
    unfolding p by simp
  show "files (snd (post_points ts name body w)) usersFile =
      Document (toJSON (JArr (us[i := set_prop user ''points'' ?v])))"
    unfolding p snd_conv using a v by (intro stored_points_after(1)) blast+
  show "get_prop (stored_users (snd (post_points ts name body w)) ! i) ''points'' = toJSON ?v"
    unfolding p snd_conv using a v by (intro stored_points_after(2)) blast+
next
  assume a: "(get_prop user ''points'' = JNum (Finite a) \<or>
      nullish (get_prop user ''points'') \<and> a = 0) \<and>
    get_prop body ''points'' = JNum (Finite d) \<and> \<bar>a + d\<bar> \<le> 2 ^ 53"
  then have "js_or (get_prop user ''points'') (JNum (Finite 0)) = JNum (Finite a)"
    by (auto simp: js_or_points_finite js_or_points_nullish)
  with a show "toJSON (js_plus ts (js_or (get_prop user ''points'') (JNum (Finite 0)))
      (get_prop body ''points'')) = JNum (Finite (a + d))"
    by (simp add: js_plus_finite)
next
  show "fst (post_points ts ''alice'' (JObj [(''points'', JNum (Finite (- 2)))])
          (snd (post_points ts ''alice'' (JObj [(''points'', JNum (Finite 5))]) alice_world))) =
     Response 200 (JObj [(''points'', JNum (Finite 3))])"
    by (simp add: post_points_def Let_def readJson_def writeJson_def js_find_def
        username_is_def js_or_def js_plus_def round_double_safe res_json_def example_defs)
qed


theorem add_points_witness:
  "post_points (\<lambda>v. []) ''alice'' (JObj [(''points'', JStr ''5'')]) alice_world =
     (Response 400 (error_body points_error), alice_world) \<and>
   fst (post_points (\<lambda>v. []) ''bob'' (JObj [(''points'', JNum (Finite 5))]) alice_world) =
     Response 404 (error_body ''User not found.'') \<and>
   fst (post_points (\<lambda>v. []) ''alice'' (JObj [(''points'', JNum (Finite 5))]) alice_world) =
     Response 200 (JObj [(''points'', JNum (Finite 5))]) \<and>
   get_prop (stored_users
       (snd (post_points (\<lambda>v. []) ''alice'' (JObj [(''points'', JNum (Finite 5))])
               alice_world)) ! 0) ''points'' = JNum (Finite 5)"
proof -
  let ?five = "JObj [(''points'', JNum (Finite 5))]"
  let ?text = "JObj [(''points'', JStr ''5'')]"
  have r: "fst (readJson usersFile alice_world) = JArr [alice_record]"
    and wr: "\<not> read_only alice_world usersFile"
    by (simp_all add: readJson_def alice_world_def empty_world_def)
  have s: "string_usernames [alice_record]"
    "JStr ''bob'' \<notin> set (map username_of [alice_record])"
    by (simp_all add: string_usernames_def username_of_def alice_record_def)
  have f: "array_find (username_is (JStr ''alice'')) [alice_record] =
      Inr (Some (0, alice_record))"
    by (simp add: username_is_def alice_record_def)
  have p: "get_prop alice_record ''points'' = JNum (Finite 0)"
    by (simp add: alice_record_def)
  have b: "\<not> nullish ?text" "\<not> typeof_number (get_prop ?text ''points'')"
    "typeof_number (get_prop ?five ''points'')"
    "get_prop ?five ''points'' = JNum (Finite 5)" "\<bar>0 + 5 :: int\<bar> \<le> 2 ^ 53"
    by simp_all
  from add_points [where body = ?text and ts = "\<lambda>v. []" and name = "''alice''"
      and w = alice_world and us = "[alice_record]" and i = 0 and user = alice_record
      and a = 0 and d = 5] b(1,2)
  have 1: "post_points (\<lambda>v. []) ''alice'' ?text alice_world =
      (Response 400 (error_body points_error), alice_world)"
    by blast
  from add_points [where body = ?five and ts = "\<lambda>v. []" and name = "''bob''"
      and w = alice_world and us = "[alice_record]" and i = 0 and user = alice_record
      and a = 0 and d = 5] b(3) r s
  have 2: "fst (post_points (\<lambda>v. []) ''bob'' ?five alice_world) =
      Response 404 (error_body ''User not found.'')"
    by blast
  from add_points [where body = ?five and ts = "\<lambda>v. []" and name = "''alice''"
      and w = alice_world and us = "[alice_record]" and i = 0 and user = alice_record
      and a = 0 and d = 5] b(3,4,5) r f wr p
  have 3: "fst (post_points (\<lambda>v. []) ''alice'' ?five alice_world) =
      Response 200 (JObj [(''points'',
        toJSON (js_plus (\<lambda>v. []) (js_or (get_prop alice_record ''points'') (JNum (Finite 0)))
                  (get_prop ?five ''points'')))])"
    "get_prop (stored_users (snd (post_points (\<lambda>v. []) ''alice'' ?five alice_world)) ! 0)
        ''points'' =
      toJSON (js_plus (\<lambda>v. []) (js_or (get_prop alice_record ''points'') (JNum (Finite 0)))
                (get_prop ?five ''points''))"
    "toJSON (js_plus (\<lambda>v. []) (js_or (get_prop alice_record ''points'') (JNum (Finite 0)))
                (get_prop ?five ''points'')) = JNum (Finite (0 + 5))"
    by blast+
  from 1 2 3 show ?thesis by (simp del: toJSON.simps)
qed

section \<open>Points that are not finite\<close>

text \<open>
  Claim C10 says that a delta of \<^verbatim>\<open>NaN\<close> makes the stored points and the returned total
  \<^verbatim>\<open>NaN\<close>, and every later total of that user as well. The type check does let
  \<^verbatim>\<open>NaN\<close> pass, but the claim as stated fails: for alice with stored points 0, the answer
  to a delta of \<^verbatim>\<open>NaN\<close> carries points \<^verbatim>\<open>null\<close>, the stored points are \<^verbatim>\<open>null\<close>, and a
  following request with delta 7 is answered with the total 7, not with \<^verbatim>\<open>NaN\<close>.
\<close>

theorem nan_points_counterexample:
  "fst (post_points (\<lambda>v. []) ''alice'' (JObj [(''points'', JNum NaN)]) alice_world) =
     Response 200 (JObj [(''points'', JNull)]) \<and>
   get_prop (stored_users
       (snd (post_points (\<lambda>v. []) ''alice'' (JObj [(''points'', JNum NaN)]) alice_world)) ! 0)
     ''points'' = JNull \<and>
   fst (post_points (\<lambda>v. []) ''alice'' (JObj [(''points'', JNum (Finite 7))])
          (snd (post_points (\<lambda>v. []) ''alice'' (JObj [(''points'', JNum NaN)]) alice_world))) =
     Response 200 (JObj [(''points'', JNum (Finite 7))]) \<and>
   fst (post_points (\<lambda>v. []) ''alice'' (JObj [(''points'', JNum (Finite 7))])
          (snd (post_points (\<lambda>v. []) ''alice'' (JObj [(''points'', JNum NaN)]) alice_world))) \<noteq>
     Response 200 (JObj [(''points'', JNum NaN)])"
  by (simp add: post_points_def Let_def readJson_def writeJson_def js_find_def
      username_is_def js_or_def js_plus_def round_double_safe res_json_def stored_users_def
      example_defs)

text \<open>
  Claim C10, amended. A delta that is \<^verbatim>\<open>NaN\<close>, \<^verbatim>\<open>Infinity\<close> or \<^verbatim>\<open>-Infinity\<close> passes the
  type check. Added to stored points that are a finite number or missing, it gives a
  total that is not finite, which serialisation writes as \<^verbatim>\<open>null\<close>: the answer carries
  points \<^verbatim>\<open>null\<close> and so does the stored record. The next request with a finite delta d
  reads the stored \<^verbatim>\<open>null\<close> as 0 and is answered with the total d: the points
  accumulated before are lost, and no later total is \<^verbatim>\<open>NaN\<close>.
\<close>

theorem nonfinite_points_become_null:
  assumes us: "fst (readJson usersFile w) = JArr us" and str: "string_usernames us"
    and f: "array_find (username_is (JStr name)) us = Inr (Some (i, user))"
    and wr: "\<not> read_only w usersFile"
    and x: "get_prop body ''points'' = JNum x" "x = NaN \<or> x = PosInf \<or> x = NegInf"
    and old: "get_prop user ''points'' = JNum (Finite a) \<or> nullish (get_prop user ''points'')"
    and d: "get_prop body2 ''points'' = JNum (Finite d)" "\<bar>d\<bar> \<le> 2 ^ 53"
  shows "typeof_number (get_prop body ''points'') \<and>
         fst (post_points ts name body w) = Response 200 (JObj [(''points'', JNull)]) \<and>
         get_prop (stored_users (snd (post_points ts name body w)) ! i) ''points'' = JNull \<and>
         fst (post_points ts name body2 (snd (post_points ts name body w))) =
           Response 200 (JObj [(''points'', JNum (Finite d))])"
proof -
  let ?v = "js_plus ts (js_or (get_prop user ''points'') (JNum (Finite 0)))
    (get_prop body ''points'')"
  let ?u = "set_prop user ''points'' ?v"
  let ?w' = "writeJson usersFile (JArr (us[i := ?u])) (snd (readJson usersFile w))"
  have ty: "typeof_number (get_prop body ''points'')" using x(1) by simp
  from old obtain b where b: "js_or (get_prop user ''points'') (JNum (Finite 0)) = JNum (Finite b)"
    by (auto simp: js_or_points_finite js_or_points_nullish)
  have "?v = JNum (number_add (Finite b) x)"
    by (simp add: b x(1) js_plus_def)
  with number_add_not_finite [OF x(2), of b] have v: "toJSON ?v = JNull"
    by (simp add: toJSON_not_finite del: toJSON.simps)
  have nu: "?v \<noteq> JUndefined" by (rule js_plus_not_undefined)
  have p: "post_points ts name body w = (Response 200 (JObj [(''points'', JNull)]), ?w')"
    using post_points_found [OF ty us f, of ts] v by (simp del: toJSON.simps)
  have st: "get_prop (stored_users ?w' ! i) ''points'' = JNull"
    using stored_points_after(2) [OF us f wr nu] v by (simp del: toJSON.simps)
  from lookup_after_points [OF us str f wr, of ?v] obtain us' where
    r': "fst (readJson usersFile ?w') = JArr us'" and
    f': "array_find (username_is (JStr name)) us' = Inr (Some (i, toJSON ?u))"
    by blast
  from found_string_user [OF f] obtain ps where ps: "user = JObj ps" by auto
  have "get_prop (toJSON ?u) ''points'' = toJSON ?v"
    unfolding ps by (rule get_prop_toJSON_set_prop) (rule js_plus_not_undefined)
  with v have "js_or (get_prop (toJSON ?u) ''points'') (JNum (Finite 0)) = JNum (Finite 0)"
    by (simp add: js_or_points_nullish del: toJSON.simps)
  moreover have ty2: "typeof_number (get_prop body2 ''points'')" using d(1) by simp
  moreover have tf: "toJSON (JNum (Finite d)) = JNum (Finite d)" by simp
  ultimately have "post_points ts name body2 ?w' =
      (Response 200 (JObj [(''points'', JNum (Finite d))]),
       writeJson usersFile
         (JArr (us'[i := set_prop (toJSON ?u) ''points'' (JNum (Finite d))]))
         (snd (readJson usersFile ?w')))"
    using post_points_found [OF ty2 r' f', of ts] d js_plus_finite [of 0 d ts] tf
    by (simp del: toJSON.simps set_prop.simps)
  with ty p st show ?thesis by (simp del: toJSON.simps)
qed

theorem nonfinite_points_become_null_witness:
  "fst (post_points (\<lambda>v. []) ''alice'' (JObj [(''points'', JNum PosInf)]) alice_world) =
     Response 200 (JObj [(''points'', JNull)]) \<and>
   get_prop (stored_users
       (snd (post_points (\<lambda>v. []) ''alice'' (JObj [(''points'', JNum PosInf)]) alice_world)) ! 0)
     ''points'' = JNull \<and>
   fst (post_points (\<lambda>v. []) ''alice'' (JObj [(''points'', JNum (Finite 4))])
          (snd (post_points (\<lambda>v. []) ''alice'' (JObj [(''points'', JNum PosInf)])
                  alice_world))) =
     Response 200 (JObj [(''points'', JNum (Finite 4))])"
proof -
  have r: "fst (readJson usersFile alice_world) = JArr [alice_record]"
    and wr: "\<not> read_only alice_world usersFile"
    by (simp_all add: readJson_def alice_world_def empty_world_def)
  have s: "string_usernames [alice_record]"
    by (simp add: string_usernames_def username_of_def alice_record_def)
  have f: "array_find (username_is (JStr ''alice'')) [alice_record] =
      Inr (Some (0, alice_record))"
    by (simp add: username_is_def alice_record_def)
  have x: "get_prop (JObj [(''points'', JNum PosInf)]) ''points'' = JNum PosInf"
    "PosInf = NaN \<or> PosInf = PosInf \<or> PosInf = NegInf"
    by simp_all
  have old: "get_prop alice_record ''points'' = JNum (Finite 0) \<or>
      nullish (get_prop alice_record ''points'')"
    by (simp add: alice_record_def)
  have d: "get_prop (JObj [(''points'', JNum (Finite 4))]) ''points'' = JNum (Finite 4)"
    "\<bar>4 :: int\<bar> \<le> 2 ^ 53"
    by simp_all
  from nonfinite_points_become_null [OF r s f wr x old d, of "\<lambda>v. []"]
  show ?thesis by blast
qed

end
